theory Spec2Isabelle
  imports Complex_Main "HOL-Library.AList"
begin

section \<open>Values\<close>

text \<open>
  The notebooks are Python over numpy and pandas. A Python exception is a value of
  \<open>error\<close>, and a call that may raise returns \<open>error + 'a\<close> with \<open>Inl\<close> for the
  exception. A finite float64 is the real number it stands for; the arithmetic on them,
  with its rounding, is given below.
\<close>

section \<open>float64 arithmetic\<close>

text \<open>
  numpy's and Python's floats are IEEE 754 binary64 numbers, and every arithmetic
  operation on them returns its exact result rounded to the nearest float64, ties to the
  even significand. \<open>rne\<close> rounds a real to the nearest integer, ties to even.
  \<open>ulp_exponent x\<close> is the exponent of the unit in the last place at \<open>x\<close>: the
  significand has 53 bits, and below 2^-1022 (the subnormal numbers) the spacing stays
  2^-1074. \<open>float64\<close> rounds a real to the nearest float64. A result beyond the largest
  float64 (about 1.8e308), which numpy turns into infinity, has no counterpart here: the
  embedding covers the finite range only.
\<close>

definition rne :: "real \<Rightarrow> int" where
  "rne x = (let n = \<lfloor>x\<rfloor>; r = x - of_int n
            in if r < 1 / 2 then n else if 1 / 2 < r then n + 1 else if even n then n else n + 1)"

definition ulp_exponent :: "real \<Rightarrow> int" where
  "ulp_exponent x = max \<lfloor>log 2 \<bar>x\<bar>\<rfloor> (- 1022) - 52"

definition float64 :: "real \<Rightarrow> real" where
  "float64 x = of_int (rne (x / 2 powr of_int (ulp_exponent x))) * 2 powr of_int (ulp_exponent x)"

text \<open>The four operations on two float64 numbers, and the square \<^verbatim>\<open>x ** 2\<close>.\<close>

definition add64 :: "real \<Rightarrow> real \<Rightarrow> real" where
  "add64 x y = float64 (x + y)"

definition sub64 :: "real \<Rightarrow> real \<Rightarrow> real" where
  "sub64 x y = float64 (x - y)"

definition mul64 :: "real \<Rightarrow> real \<Rightarrow> real" where
  "mul64 x y = float64 (x * y)"

definition div64 :: "real \<Rightarrow> real \<Rightarrow> real" where
  "div64 x y = float64 (x / y)"

definition square64 :: "real \<Rightarrow> real" where
  "square64 x = float64 (x ^ 2)"

text \<open>
  \<^verbatim>\<open>np.exp\<close>, taken as the exponential rounded to the nearest float64. What is proved
  below uses of it only that it is non-decreasing, that it is one function wherever it is
  called, and that its value at 4 is below its value at 6.4.
\<close>

definition np_exp :: "real \<Rightarrow> real" where
  "np_exp x = float64 (exp x)"

section \<open>Errors and tables\<close>

datatype error =
  KeyError | TypeError | ValueError | AttributeError | IndexError | IndexingError

text \<open>A pandas column (or numpy array) has a dtype: float64, or object holding strings.\<close>

datatype column = FloatCol "real list" | StrCol "string list"

datatype label = IntL int | StrL string | FloatL real

record dataframe =
  columns :: "(string \<times> column) list"
  index :: "label list"

fun col_len :: "column \<Rightarrow> nat" where
  "col_len (FloatCol xs) = length xs"
| "col_len (StrCol ss) = length ss"

text \<open>\<^verbatim>\<open>len(df)\<close> is the number of index labels.\<close>

definition len :: "dataframe \<Rightarrow> nat" where
  "len df = length (index df)"

text \<open>\<^verbatim>\<open>pd.RangeIndex(n)\<close>: the labels 0, 1, ..., n-1.\<close>

definition RangeIndex :: "nat \<Rightarrow> label list" where
  "RangeIndex n = map (\<lambda>k. IntL (int k)) [0..<n]"

text \<open>
  \<^verbatim>\<open>df[key].values\<close>: the column stored under \<open>key\<close>, KeyError when absent. The column
  labels of a table are taken to be distinct: for a label that occurs twice pandas
  returns the block of both columns, which is not represented, and what is proved about
  the values read from a table assumes distinct labels.
\<close>

definition getitem :: "dataframe \<Rightarrow> string \<Rightarrow> error + column" where
  "getitem df k = (case map_of (columns df) k of None \<Rightarrow> Inl KeyError | Some c \<Rightarrow> Inr c)"

text \<open>
  An array used as a list of labels, as in \<^verbatim>\<open>series[array]\<close>.
\<close>

fun labels_of :: "column \<Rightarrow> label list" where
  "labels_of (FloatCol xs) = map FloatL xs"
| "labels_of (StrCol ss) = map StrL ss"

text \<open>
  \<^verbatim>\<open>series[labels]\<close> for a Series given as its (label, value) pairs, the labels
  distinct: the values at the requested labels, in the order requested; KeyError when a
  label is not in the index.
\<close>

fun series_getitem :: "(label \<times> 'a) list \<Rightarrow> label list \<Rightarrow> error + 'a list" where
  "series_getitem tbl [] = Inr []"
| "series_getitem tbl (l # ls) =
     (case map_of tbl l of
        None \<Rightarrow> Inl KeyError
      | Some v \<Rightarrow> (case series_getitem tbl ls of Inl e \<Rightarrow> Inl e | Inr vs \<Rightarrow> Inr (v # vs)))"

text \<open>The same for a Series whose values are a typed column over the index \<open>idx\<close>.\<close>

fun series_getitem_col :: "label list \<Rightarrow> column \<Rightarrow> label list \<Rightarrow> error + column" where
  "series_getitem_col idx (FloatCol vs) ls =
     (case series_getitem (zip idx vs) ls of Inl e \<Rightarrow> Inl e | Inr xs \<Rightarrow> Inr (FloatCol xs))"
| "series_getitem_col idx (StrCol vs) ls =
     (case series_getitem (zip idx vs) ls of Inl e \<Rightarrow> Inl e | Inr xs \<Rightarrow> Inr (StrCol xs))"

text \<open>
  numpy arithmetic is elementwise. On an object array of strings it raises TypeError at
  the first element; an empty array has no element to fail on. The two arrays of a
  binary operation are here always columns of one table or computed from them, of one
  length; for other lengths numpy raises ValueError, except that it stretches an array of
  length 1, which does not arise and is not represented.
\<close>

fun np_unary :: "(real \<Rightarrow> real) \<Rightarrow> column \<Rightarrow> error + real list" where
  "np_unary f (FloatCol xs) = Inr (map f xs)"
| "np_unary f (StrCol ss) = (if ss = [] then Inr [] else Inl TypeError)"

definition elementwise :: "(real \<Rightarrow> real \<Rightarrow> real) \<Rightarrow> real list \<Rightarrow> real list \<Rightarrow> error + real list" where
  "elementwise f xs ys = (if length xs = length ys then Inr (map2 f xs ys) else Inl ValueError)"

fun np_binary :: "(real \<Rightarrow> real \<Rightarrow> real) \<Rightarrow> column \<Rightarrow> real list \<Rightarrow> error + real list" where
  "np_binary f (FloatCol xs) ys = elementwise f xs ys"
| "np_binary f (StrCol ss) ys = (if ss = [] then elementwise f [] ys else Inl TypeError)"

text \<open>
  \<^verbatim>\<open>pd.DataFrame(d)\<close> for a dict \<open>d\<close> of arrays: the dict's entries become the columns, in
  insertion order, the index is the default RangeIndex, and arrays of different lengths
  are refused with ValueError.
\<close>

definition DataFrame :: "(string \<times> column) list \<Rightarrow> error + dataframe" where
  "DataFrame d =
     (case d of
        [] \<Rightarrow> Inr \<lparr>columns = [], index = []\<rparr>
      | (k, c) # rest \<Rightarrow>
          if list_all (\<lambda>(k', c'). col_len c' = col_len c) rest
          then Inr \<lparr>columns = d, index = RangeIndex (col_len c)\<rparr>
          else Inl ValueError)"

text \<open>\<^verbatim>\<open>df.index = idx\<close>: pandas refuses an index whose length is not the number of rows.\<close>

definition set_index :: "dataframe \<Rightarrow> label list \<Rightarrow> error + dataframe" where
  "set_index df idx = (if length idx = len df then Inr (df\<lparr>index := idx\<rparr>) else Inl ValueError)"

text \<open>\<^verbatim>\<open>df.drop(keys, axis=1)\<close>: KeyError when a key is not a column.\<close>

definition drop_columns :: "dataframe \<Rightarrow> string list \<Rightarrow> error + dataframe" where
  "drop_columns df ks =
     (if list_all (\<lambda>k. k \<in> fst ` set (columns df)) ks
      then Inr (df\<lparr>columns := filter (\<lambda>(k, c). k \<notin> set ks) (columns df)\<rparr>)
      else Inl KeyError)"

section \<open>The optimisation domain\<close>

text \<open>
  Modelled from the spec: the library's domain abstraction ("a description of an
  optimization problem's input parameters, output responses, and constraints") is not
  under src/; only its uses in the notebooks are. A feature carries its key; a continuous
  input its bounds, a categorical input its categories, an output its objective (the
  weight of a maximisation, the threshold and the steepness of a sigmoid).
  Reading an attribute a feature does not have raises AttributeError, and
  \<open>get_by_key\<close> raises KeyError when no feature has the key.
\<close>

datatype objective =
    MaximizeObjective real
  | MinimizeObjective
  | MinimizeSigmoidObjective real real
  | MaximizeSigmoidObjective real real

datatype feature =
    ContinuousInput string real real
  | CategoricalInput string "string list"
  | ContinuousOutput string objective

fun key :: "feature \<Rightarrow> string" where
  "key (ContinuousInput k lo hi) = k"
| "key (CategoricalInput k cs) = k"
| "key (ContinuousOutput k ob) = k"

fun lower_bound :: "feature \<Rightarrow> error + real" where
  "lower_bound (ContinuousInput k lo hi) = Inr lo"
| "lower_bound f = Inl AttributeError"

fun upper_bound :: "feature \<Rightarrow> error + real" where
  "upper_bound (ContinuousInput k lo hi) = Inr hi"
| "upper_bound f = Inl AttributeError"

fun categories :: "feature \<Rightarrow> error + string list" where
  "categories (CategoricalInput k cs) = Inr cs"
| "categories f = Inl AttributeError"

record domain =
  inputs :: "feature list"
  outputs :: "feature list"

definition get_by_key :: "feature list \<Rightarrow> string \<Rightarrow> error + feature" where
  "get_by_key fs k = (case find (\<lambda>f. key f = k) fs of None \<Rightarrow> Inl KeyError | Some f \<Rightarrow> Inr f)"

text \<open>The reaction domain the notebook builds: temperature, solvent type, solvent volume.\<close>

definition temperature_feature :: feature where
  "temperature_feature = ContinuousInput ''Temperature'' 0.0 60.0"

definition solvent_amount_feature :: feature where
  "solvent_amount_feature = ContinuousInput ''Solvent Volume'' 20 90"

definition solvent_type_feature :: feature where
  "solvent_type_feature = CategoricalInput ''Solvent Type'' [''MeOH'', ''THF'', ''Dioxane'']"

definition input_features :: "feature list" where
  "input_features = [temperature_feature, solvent_type_feature, solvent_amount_feature]"

definition yield_feature :: feature where
  "yield_feature = ContinuousOutput ''Yield'' (MaximizeObjective 1.0)"

definition output_features :: "feature list" where
  "output_features = [yield_feature]"

definition reaction_domain :: domain where
  "reaction_domain = \<lparr>inputs = input_features, outputs = output_features\<rparr>"

section \<open>numpy's random generator\<close>

text \<open>
  The generator is global state of numpy. Its state is the stream of numbers it will
  produce and a position in it; every draw takes the next number and moves on. numpy
  documents the basic draw as a float in the half-open interval from 0 to 1, so the
  draw is the fractional part of the stream's entry: every stream is a legal one.
\<close>

record rng =
  tape :: "nat \<Rightarrow> real"
  pos :: nat

definition random_sample :: "rng \<Rightarrow> real \<times> rng" where
  "random_sample g = (frac (tape g (pos g)), g\<lparr>pos := Suc (pos g)\<rparr>)"

text \<open>\<^verbatim>\<open>np.random.uniform(low, high)\<close>, one value in [low, high).\<close>

definition uniform1 :: "real \<Rightarrow> real \<Rightarrow> rng \<Rightarrow> real \<times> rng" where
  "uniform1 low high g = (let (u, g') = random_sample g in (low + (high - low) * u, g'))"

fun uniform_n :: "real \<Rightarrow> real \<Rightarrow> nat \<Rightarrow> rng \<Rightarrow> real list \<times> rng" where
  "uniform_n low high 0 g = ([], g)"
| "uniform_n low high (Suc n) g =
     (let (x, g1) = uniform1 low high g;
          (xs, g2) = uniform_n low high n g1
      in (x # xs, g2))"

text \<open>
  \<^verbatim>\<open>np.random.uniform(low=low, high=high, size=(n,))\<close>: \<open>n\<close> values, ValueError for a
  negative size.
\<close>

definition np_random_uniform :: "real \<Rightarrow> real \<Rightarrow> int \<Rightarrow> rng \<Rightarrow> (error + real list) \<times> rng" where
  "np_random_uniform low high n g =
     (if n < 0 then (Inl ValueError, g)
      else (let (xs, g') = uniform_n low high (nat n) g in (Inr xs, g')))"

text \<open>\<^verbatim>\<open>np.random.randint(low, high)\<close>: an integer in [low, high), ValueError when empty.\<close>

definition np_random_randint :: "int \<Rightarrow> int \<Rightarrow> rng \<Rightarrow> (error + int) \<times> rng" where
  "np_random_randint low high g =
     (if high \<le> low then (Inl ValueError, g)
      else (let (u, g') = random_sample g in (Inr (low + \<lfloor>u * of_int (high - low)\<rfloor>), g')))"

text \<open>\<^verbatim>\<open>np.ones(n)\<close>: ValueError for a negative size.\<close>

definition np_ones :: "int \<Rightarrow> error + real list" where
  "np_ones n = (if n < 0 then Inl ValueError else Inr (replicate (nat n) 1.0))"

text \<open>Python's \<^verbatim>\<open>xs[i]\<close> on a list: negative indices count from the end.\<close>

definition list_getitem :: "'a list \<Rightarrow> int \<Rightarrow> error + 'a" where
  "list_getitem xs i =
     (if 0 \<le> i \<and> i < int (length xs) then Inr (xs ! nat i)
      else if i < 0 \<and> - int (length xs) \<le> i then Inr (xs ! nat (int (length xs) + i))
      else Inl IndexError)"

section \<open>The reaction notebook: module-level data of the simulator cell\<close>

record module =
  T0 :: real
  T1 :: real
  e0 :: real
  e60 :: real
  de :: real
  boiling_points :: "(string \<times> real) list"
  density :: "(string \<times> real) list"
  solvent_descriptors :: dataframe

text \<open>
  \<open>T0\<close> and \<open>T1\<close> are Python integers, whose sum is exact and whose quotient is the
  float64 nearest to it; a decimal literal is the float64 nearest to it.
  \<^verbatim>\<open>pd.DataFrame(descs)\<close> for the dict of dicts \<open>descs\<close>: one column per outer key, one
  row per solvent, the solvent names as the index.
\<close>

definition module_init :: module where
  "module_init =
     (let t0 = 25; t1 = 100;
          E0 = np_exp (div64 (t1 + 0) t0);
          E60 = np_exp (div64 (t1 + 60) t0);
          bp = [(''MeOH'', float64 64.7), (''THF'', float64 66.0), (''Dioxane'', float64 101.0)];
          dens = [(''MeOH'', float64 0.792), (''THF'', float64 0.886), (''Dioxane'', float64 1.03)]
      in \<lparr>T0 = t0, T1 = t1, e0 = E0, e60 = E60, de = sub64 E60 E0,
          boiling_points = bp, density = dens,
          solvent_descriptors =
            \<lparr>columns = [(''boiling_points'', FloatCol (map snd bp)),
                        (''density'', FloatCol (map snd dens))],
             index = map (StrL \<circ> fst) bp\<rparr>\<rparr>)"

section \<open>The reaction notebook: the toy simulator\<close>

text \<open>
  The three factor functions work on numpy arrays elementwise; each is given for one
  element, and lifted to a column where the simulator applies it to a column.
\<close>

definition calc_volume_fact :: "real \<Rightarrow> real" where
  "calc_volume_fact V =
     (let x = div64 (sub64 V 20) 70;
          x = add64 (add64 0.5 (mul64 (sub64 x 0.75) (float64 0.1))) (square64 (sub64 x (float64 0.4)))
      in x)"

definition calc_Tfact :: "module \<Rightarrow> real \<Rightarrow> real" where
  "calc_Tfact m T = (let x = np_exp (div64 (add64 (T1 m) T) (T0 m)) in div64 (sub64 x (e0 m)) (de m))"

definition calc_volume_fact_col :: "column \<Rightarrow> error + real list" where
  "calc_volume_fact_col V = np_unary calc_volume_fact V"

definition calc_Tfact_col :: "module \<Rightarrow> column \<Rightarrow> error + real list" where
  "calc_Tfact_col m T = np_unary (calc_Tfact m) T"

definition calc_rhofact :: "module \<Rightarrow> column \<Rightarrow> real list \<Rightarrow> error + real list" where
  "calc_rhofact m solvent_type Tfact =
     (case getitem (solvent_descriptors m) ''density'' of
        Inl e \<Rightarrow> Inl e
      | Inr dens \<Rightarrow>
     (case series_getitem_col (index (solvent_descriptors m)) dens (labels_of solvent_type) of
        Inl e \<Rightarrow> Inl e
      | Inr x \<Rightarrow> np_binary (\<lambda>x Tf. div64 (mul64 (sub64 1.5 x) (add64 Tf 0.5)) 2) x Tfact))"

text \<open>
  The comprehension that draws the solvent of each random sample:
  \<^verbatim>\<open>[domain.inputs.get_by_key("Solvent Type").categories[np.random.randint(0, 3)]
   for i in range(nsamples)]\<close>
\<close>

fun random_solvent_types :: "domain \<Rightarrow> nat \<Rightarrow> rng \<Rightarrow> (error + string list) \<times> rng" where
  "random_solvent_types d 0 g = (Inr [], g)"
| "random_solvent_types d (Suc n) g =
     (case get_by_key (inputs d) ''Solvent Type'' of
        Inl e \<Rightarrow> (Inl e, g)
      | Inr f \<Rightarrow>
     (case categories f of
        Inl e \<Rightarrow> (Inl e, g)
      | Inr cats \<Rightarrow>
     (case np_random_randint 0 3 g of
        (Inl e, g1) \<Rightarrow> (Inl e, g1)
      | (Inr i, g1) \<Rightarrow>
     (case list_getitem cats i of
        Inl e \<Rightarrow> (Inl e, g1)
      | Inr s \<Rightarrow>
     (case random_solvent_types d n g1 of
        (Inl e, g2) \<Rightarrow> (Inl e, g2)
      | (Inr ss, g2) \<Rightarrow> (Inr (s # ss), g2))))))"

text \<open>The branch \<^verbatim>\<open>candidates is None\<close> of \<open>create_experiments\<close>: T, V and solvent_types.\<close>

definition random_inputs ::
  "domain \<Rightarrow> feature \<Rightarrow> feature \<Rightarrow> int \<Rightarrow> rng \<Rightarrow> (error + column \<times> column \<times> column) \<times> rng" where
  "random_inputs d Tf Vf nsamples g =
     (case lower_bound Tf of Inl e \<Rightarrow> (Inl e, g) | Inr Tlo \<Rightarrow>
     (case upper_bound Tf of Inl e \<Rightarrow> (Inl e, g) | Inr Thi \<Rightarrow>
     (case np_random_uniform Tlo Thi nsamples g of
        (Inl e, g1) \<Rightarrow> (Inl e, g1)
      | (Inr T, g1) \<Rightarrow>
     (case lower_bound Vf of Inl e \<Rightarrow> (Inl e, g1) | Inr Vlo \<Rightarrow>
     (case upper_bound Vf of Inl e \<Rightarrow> (Inl e, g1) | Inr Vhi \<Rightarrow>
     (case np_random_uniform Vlo Vhi nsamples g1 of
        (Inl e, g2) \<Rightarrow> (Inl e, g2)
      | (Inr V, g2) \<Rightarrow>
     (case random_solvent_types d (nat nsamples) g2 of
        (Inl e, g3) \<Rightarrow> (Inl e, g3)
      | (Inr solvent_types, g3) \<Rightarrow>
          (Inr (FloatCol T, FloatCol V, StrCol solvent_types), g3))))))))"

text \<open>The else branch: nsamples, T, V and solvent_types read from the candidates.\<close>

definition candidate_inputs :: "dataframe \<Rightarrow> error + int \<times> column \<times> column \<times> column" where
  "candidate_inputs candidates =
     (let nsamples = int (len candidates) in
      case getitem candidates ''Temperature'' of Inl e \<Rightarrow> Inl e | Inr T \<Rightarrow>
     (case getitem candidates ''Solvent Volume'' of Inl e \<Rightarrow> Inl e | Inr V \<Rightarrow>
     (case getitem candidates ''Solvent Type'' of Inl e \<Rightarrow> Inl e | Inr solvent_types \<Rightarrow>
        Inr (nsamples, T, V, solvent_types))))"

text \<open>
  The common tail of \<open>create_experiments\<close>, from \<^verbatim>\<open>Tfact = calc_Tfact(T)\<close> on. First the
  dict passed to \<^verbatim>\<open>pd.DataFrame\<close>: it is built entry by entry, and a repeated key keeps
  its place and takes the later value.
\<close>

definition samples_dict ::
  "module \<Rightarrow> feature \<Rightarrow> feature \<Rightarrow> feature \<Rightarrow> feature \<Rightarrow> int \<Rightarrow> real \<Rightarrow> real
   \<Rightarrow> column \<Rightarrow> column \<Rightarrow> column \<Rightarrow> error + (string \<times> column) list" where
  "samples_dict m Tf Vf typef yf nsamples A B T V solvent_types =
     (case calc_Tfact_col m T of Inl e \<Rightarrow> Inl e | Inr Tfact \<Rightarrow>
     (case calc_rhofact m solvent_types Tfact of Inl e \<Rightarrow> Inl e | Inr rhofact \<Rightarrow>
     (case calc_volume_fact_col V of Inl e \<Rightarrow> Inl e | Inr Vfact \<Rightarrow>
     (case elementwise (\<lambda>t r. add64 (mul64 A t) (mul64 B r)) Tfact rhofact of
        Inl e \<Rightarrow> Inl e | Inr y \<Rightarrow>
     (case elementwise (\<lambda>y v. add64 (mul64 0.5 y) (mul64 (mul64 0.5 y) v)) y Vfact of
        Inl e \<Rightarrow> Inl e | Inr y \<Rightarrow>
     (case np_ones nsamples of Inl e \<Rightarrow> Inl e | Inr ones \<Rightarrow>
        Inr (AList.update (''valid_'' @ key yf) (FloatCol ones)
            (AList.update (key typef) solvent_types
            (AList.update (key yf) (FloatCol y)
            (AList.update (key Vf) V
            (AList.update (key Tf) T [])))))))))))"

text \<open>Then the table, and the assignment to its index.\<close>

definition samples_of ::
  "module \<Rightarrow> feature \<Rightarrow> feature \<Rightarrow> feature \<Rightarrow> feature \<Rightarrow> int \<Rightarrow> real \<Rightarrow> real
   \<Rightarrow> column \<Rightarrow> column \<Rightarrow> column \<Rightarrow> error + dataframe" where
  "samples_of m Tf Vf typef yf nsamples A B T V solvent_types =
     (case samples_dict m Tf Vf typef yf nsamples A B T V solvent_types of
        Inl e \<Rightarrow> Inl e
      | Inr dict \<Rightarrow>
     (case DataFrame dict of
        Inl e \<Rightarrow> Inl e
      | Inr samples \<Rightarrow> set_index samples (RangeIndex (nat nsamples))))"

definition create_experiments ::
  "module \<Rightarrow> domain \<Rightarrow> int \<Rightarrow> real \<Rightarrow> real \<Rightarrow> dataframe option \<Rightarrow> rng
   \<Rightarrow> (error + dataframe) \<times> rng" where
  "create_experiments m d nsamples A B candidates g =
     (case get_by_key (inputs d) ''Temperature'' of Inl e \<Rightarrow> (Inl e, g) | Inr Tf \<Rightarrow>
     (case get_by_key (inputs d) ''Solvent Volume'' of Inl e \<Rightarrow> (Inl e, g) | Inr Vf \<Rightarrow>
     (case get_by_key (inputs d) ''Solvent Type'' of Inl e \<Rightarrow> (Inl e, g) | Inr typef \<Rightarrow>
     (case get_by_key (outputs d) ''Yield'' of Inl e \<Rightarrow> (Inl e, g) | Inr yf \<Rightarrow>
     (case candidates of
        None \<Rightarrow>
          (case random_inputs d Tf Vf nsamples g of
             (Inl e, g') \<Rightarrow> (Inl e, g')
           | (Inr (T, V, solvent_types), g') \<Rightarrow>
               (samples_of m Tf Vf typef yf nsamples A B T V solvent_types, g'))
      | Some c \<Rightarrow>
          (case candidate_inputs c of
             Inl e \<Rightarrow> (Inl e, g)
           | Inr (n, T, V, solvent_types) \<Rightarrow>
               (samples_of m Tf Vf typef yf n A B T V solvent_types, g)))))))"

text \<open>The defaults of \<open>create_experiments\<close>: nsamples=100, A=25, B=90.\<close>

definition create_candidates :: "module \<Rightarrow> domain \<Rightarrow> int \<Rightarrow> rng \<Rightarrow> (error + dataframe) \<times> rng" where
  "create_candidates m d nsamples g =
     (case create_experiments m d nsamples 25 90 None g of
        (Inl e, g') \<Rightarrow> (Inl e, g')
      | (Inr experiments, g') \<Rightarrow> (drop_columns experiments [''Yield'', ''valid_Yield''], g'))"

definition evaluate_experiments ::
  "module \<Rightarrow> domain \<Rightarrow> dataframe option \<Rightarrow> rng \<Rightarrow> (error + dataframe) \<times> rng" where
  "evaluate_experiments m d candidates g = create_experiments m d 100 25 90 candidates g"

section \<open>The reaction notebook: the optimisation loop\<close>

text \<open>
  \<^verbatim>\<open>SMOKE_TEST = os.environ.get("SMOKE_TEST")\<close> is None when the variable is unset and its
  value otherwise. Python's truth value of it: None and the empty string are false.
\<close>

definition truthy :: "string option \<Rightarrow> bool" where
  "truthy v = (case v of None \<Rightarrow> False | Some s \<Rightarrow> s \<noteq> [])"

text \<open>
  Modelled from the spec: the strategy ("a strategy proposes candidate experiments (ask)
  and is later informed of observed outcomes (tell)") is the library's, not under src/.
  It is a parameter of the loop: a state of any type and the two operations on it, each
  of which may raise.
\<close>

record 's strategy =
  ask :: "int \<Rightarrow> 's \<Rightarrow> (error + dataframe) \<times> 's"
  tell :: "dataframe \<Rightarrow> 's \<Rightarrow> (error + unit) \<times> 's"

text \<open>The calls the loop makes, with their arguments and outcomes, in the order made.\<close>

datatype event =
    Ask int "error + dataframe"
  | Evaluate dataframe "error + dataframe"
  | Tell dataframe "error + unit"

text \<open>The variables of the loop cell: \<open>i\<close>, \<open>done\<close>, the strategy and numpy's generator.\<close>

record 's loop_state =
  loop_i :: int
  loop_done :: bool
  sobo_strategy :: 's
  generator :: rng
  trace :: "event list"

text \<open>One pass through the body of \<^verbatim>\<open>while not done\<close>; an exception leaves the loop.\<close>

definition loop_body ::
  "'s strategy \<Rightarrow> module \<Rightarrow> domain \<Rightarrow> int \<Rightarrow> 's loop_state \<Rightarrow> (error + unit) \<times> 's loop_state" where
  "loop_body S m d experimental_budget st =
     (let st1 = st\<lparr>loop_i := loop_i st + 1\<rparr> in
      case ask S 1 (sobo_strategy st1) of (r, s1) \<Rightarrow>
      let st2 = st1\<lparr>sobo_strategy := s1, trace := trace st1 @ [Ask 1 r]\<rparr> in
      case r of Inl e \<Rightarrow> (Inl e, st2) | Inr new_candidate \<Rightarrow>
      case evaluate_experiments m d (Some new_candidate) (generator st2) of (x, g') \<Rightarrow>
      let st3 = st2\<lparr>generator := g', trace := trace st2 @ [Evaluate new_candidate x]\<rparr> in
      case x of Inl e \<Rightarrow> (Inl e, st3) | Inr new_experiment \<Rightarrow>
      case tell S new_experiment (sobo_strategy st3) of (t, s2) \<Rightarrow>
      let st4 = st3\<lparr>sobo_strategy := s2, trace := trace st3 @ [Tell new_experiment t]\<rparr> in
      case t of Inl e \<Rightarrow> (Inl e, st4) | Inr u \<Rightarrow>
        (Inr (), if loop_i st4 > experimental_budget then st4\<lparr>loop_done := True\<rparr> else st4))"

function loop ::
  "'s strategy \<Rightarrow> module \<Rightarrow> domain \<Rightarrow> int \<Rightarrow> 's loop_state \<Rightarrow> (error + unit) \<times> 's loop_state" where
  "loop S m d experimental_budget st =
     (if loop_done st then (Inr (), st)
      else (case loop_body S m d experimental_budget st of
              (Inl e, st') \<Rightarrow> (Inl e, st')
            | (Inr u, st') \<Rightarrow> loop S m d experimental_budget st'))"
  by pat_completeness auto
termination
proof (relation "measure (\<lambda>(S, m, d, experimental_budget, st).
                   if loop_done st then 0 else 1 + nat (experimental_budget + 1 - loop_i st))")
  show "wf (measure (\<lambda>(S :: 's strategy, m :: module, d :: domain, experimental_budget, st :: 's loop_state).
                   if loop_done st then 0 else 1 + nat (experimental_budget + 1 - loop_i st)))"
    by simp
next
  fix S :: "'s strategy" and m d experimental_budget and st st' :: "'s loop_state" and x u
  assume "\<not> loop_done st" and "(x, st') = loop_body S m d experimental_budget st" and "x = Inr u"
  then have "loop_body S m d experimental_budget st = (Inr u, st')" by simp
  then have "loop_i st' = loop_i st + 1
       \<and> loop_done st' = (loop_done st \<or> loop_i st + 1 > experimental_budget)"
    by (auto simp: loop_body_def Let_def split: prod.splits sum.splits if_splits)
  with \<open>\<not> loop_done st\<close>
  show "((S, m, d, experimental_budget, st'), (S, m, d, experimental_budget, st))
          \<in> measure (\<lambda>(S, m, d, experimental_budget, st).
                   if loop_done st then 0 else 1 + nat (experimental_budget + 1 - loop_i st))"
    by auto
qed

text \<open>The loop cell, from the values of the strategy and the generator on entry.\<close>

definition optimization_loop ::
  "'s strategy \<Rightarrow> module \<Rightarrow> domain \<Rightarrow> string option \<Rightarrow> 's \<Rightarrow> rng \<Rightarrow> (error + unit) \<times> 's loop_state" where
  "optimization_loop S m d SMOKE_TEST s g =
     (let experimental_budget = 10;
          i = 0;
          done = (if \<not> truthy SMOKE_TEST then False else True)
      in loop S m d experimental_budget
           \<lparr>loop_i = i, loop_done = done, sobo_strategy = s, generator = g, trace = []\<rparr>)"


text \<open>A round that an exception \<open>e\<close> cut short, at the ask, the evaluation or the tell.\<close>

fun aborted_round :: "error \<Rightarrow> event list \<Rightarrow> bool" where
  "aborted_round e [Ask n (Inl e')] = (n = 1 \<and> e' = e)"
| "aborted_round e [Ask n (Inr c), Evaluate c' (Inl e')] = (n = 1 \<and> c' = c \<and> e' = e)"
| "aborted_round e [Ask n (Inr c), Evaluate c' (Inr x), Tell x' (Inl e')] =
     (n = 1 \<and> c' = c \<and> x' = x \<and> e' = e)"
| "aborted_round e es = False"


section \<open>The simulator over an object store\<close>

text \<open>
  For what a call leaves unchanged, the arguments are references to objects. The store
  holds the objects the notebook has created; the module-level data and numpy's
  generator are part of the session. No array is written in place by the simulator, so
  arrays stay values; the one assignment to an object is \<^verbatim>\<open>samples.index = ...\<close>.
\<close>

datatype pyobj = NoneObj | DomainObj domain | FrameObj dataframe

record session =
  globals :: module
  np_random :: rng
  heap :: "nat \<Rightarrow> pyobj"
  next_ref :: nat

definition new_object :: "pyobj \<Rightarrow> session \<Rightarrow> nat \<times> session" where
  "new_object ob s = (next_ref s, s\<lparr>heap := (heap s)(next_ref s := ob), next_ref := Suc (next_ref s)\<rparr>)"

definition assign_index :: "nat \<Rightarrow> label list \<Rightarrow> session \<Rightarrow> (error + unit) \<times> session" where
  "assign_index r idx s =
     (case heap s r of
        FrameObj df \<Rightarrow>
          (case set_index df idx of
             Inl e \<Rightarrow> (Inl e, s)
           | Inr df' \<Rightarrow> (Inr (), s\<lparr>heap := (heap s)(r := FrameObj df')\<rparr>))
      | _ \<Rightarrow> (Inl AttributeError, s))"

definition samples_st ::
  "feature \<Rightarrow> feature \<Rightarrow> feature \<Rightarrow> feature \<Rightarrow> int \<Rightarrow> real \<Rightarrow> real
   \<Rightarrow> column \<Rightarrow> column \<Rightarrow> column \<Rightarrow> session \<Rightarrow> (error + nat) \<times> session" where
  "samples_st Tf Vf typef yf nsamples A B T V solvent_types s =
     (case samples_dict (globals s) Tf Vf typef yf nsamples A B T V solvent_types of
        Inl e \<Rightarrow> (Inl e, s)
      | Inr dict \<Rightarrow>
     (case DataFrame dict of
        Inl e \<Rightarrow> (Inl e, s)
      | Inr df \<Rightarrow>
     (case new_object (FrameObj df) s of (samples, s1) \<Rightarrow>
     (case assign_index samples (RangeIndex (nat nsamples)) s1 of
        (Inl e, s2) \<Rightarrow> (Inl e, s2)
      | (Inr u, s2) \<Rightarrow> (Inr samples, s2)))))"

text \<open>
  \<open>create_experiments\<close> on references: an object that is not a domain has no attribute
  \<open>inputs\<close>, and an object that is neither None nor a table has no \<open>len\<close>.
\<close>

definition create_experiments_st ::
  "nat \<Rightarrow> int \<Rightarrow> real \<Rightarrow> real \<Rightarrow> nat \<Rightarrow> session \<Rightarrow> (error + nat) \<times> session" where
  "create_experiments_st domain_ref nsamples A B candidates_ref s =
     (case heap s domain_ref of
        DomainObj d \<Rightarrow>
          (case get_by_key (inputs d) ''Temperature'' of Inl e \<Rightarrow> (Inl e, s) | Inr Tf \<Rightarrow>
          (case get_by_key (inputs d) ''Solvent Volume'' of Inl e \<Rightarrow> (Inl e, s) | Inr Vf \<Rightarrow>
          (case get_by_key (inputs d) ''Solvent Type'' of Inl e \<Rightarrow> (Inl e, s) | Inr typef \<Rightarrow>
          (case get_by_key (outputs d) ''Yield'' of Inl e \<Rightarrow> (Inl e, s) | Inr yf \<Rightarrow>
          (case heap s candidates_ref of
             NoneObj \<Rightarrow>
               (case random_inputs d Tf Vf nsamples (np_random s) of
                  (Inl e, g') \<Rightarrow> (Inl e, s\<lparr>np_random := g'\<rparr>)
                | (Inr (T, V, solvent_types), g') \<Rightarrow>
                    samples_st Tf Vf typef yf nsamples A B T V solvent_types (s\<lparr>np_random := g'\<rparr>))
           | FrameObj c \<Rightarrow>
               (case candidate_inputs c of
                  Inl e \<Rightarrow> (Inl e, s)
                | Inr (n, T, V, solvent_types) \<Rightarrow>
                    samples_st Tf Vf typef yf n A B T V solvent_types s)
           | DomainObj d' \<Rightarrow> (Inl TypeError, s))))))
      | _ \<Rightarrow> (Inl AttributeError, s))"

definition evaluate_experiments_st :: "nat \<Rightarrow> nat \<Rightarrow> session \<Rightarrow> (error + nat) \<times> session" where
  "evaluate_experiments_st domain_ref candidates_ref s =
     create_experiments_st domain_ref 100 25 90 candidates_ref s"

section \<open>The BNH benchmark notebook\<close>






text \<open>\<^verbatim>\<open>experiments.c1\<close>: a column read as an attribute, AttributeError when absent.\<close>

definition getattr_col :: "dataframe \<Rightarrow> string \<Rightarrow> error + column" where
  "getattr_col df k = (case map_of (columns df) k of None \<Rightarrow> Inl AttributeError | Some c \<Rightarrow> Inr c)"

text \<open>
  A column compared with a number, elementwise; TypeError for a string, at the first
  element.
\<close>

fun compare_scalar :: "(real \<Rightarrow> bool) \<Rightarrow> column \<Rightarrow> error + bool list" where
  "compare_scalar p (FloatCol xs) = Inr (map p xs)"
| "compare_scalar p (StrCol ss) = (if ss = [] then Inr [] else Inl TypeError)"

text \<open>\<^verbatim>\<open>&\<close> of two boolean columns of one table.\<close>

definition mask_and :: "bool list \<Rightarrow> bool list \<Rightarrow> error + bool list" where
  "mask_and xs ys = (if length xs = length ys then Inr (map2 (\<and>) xs ys) else Inl ValueError)"

text \<open>
  \<^verbatim>\<open>df.loc[mask]\<close>: the rows whose mask entry is true, with their index labels;
  IndexingError for a mask of the wrong length.
\<close>

definition filter_mask :: "bool list \<Rightarrow> 'a list \<Rightarrow> 'a list" where
  "filter_mask bmask xs = map snd (filter fst (zip bmask xs))"

fun col_filter_mask :: "bool list \<Rightarrow> column \<Rightarrow> column" where
  "col_filter_mask bmask (FloatCol xs) = FloatCol (filter_mask bmask xs)"
| "col_filter_mask bmask (StrCol ss) = StrCol (filter_mask bmask ss)"

definition loc_mask :: "dataframe \<Rightarrow> bool list \<Rightarrow> error + dataframe" where
  "loc_mask df bmask =
     (if length bmask = len df
      then Inr \<lparr>columns = map (\<lambda>(k, c). (k, col_filter_mask bmask c)) (columns df),
                index = filter_mask bmask (index df)\<rparr>
      else Inl IndexingError)"

text \<open>
  Modelled from the spec: \<open>compute_hypervolume\<close> ("a scalar metric summarizing
  multi-objective optimization progress, computed by the external library") is not under
  src/. It is a parameter: any function of the domain, the table and the reference point
  that returns a number or raises.
\<close>

definition hypervolume ::
  "(domain \<Rightarrow> dataframe \<Rightarrow> (string \<times> real) list \<Rightarrow> error + real) \<Rightarrow> domain \<Rightarrow> dataframe
   \<Rightarrow> error + real" where
  "hypervolume compute_hypervolume d experiments =
     (if ''c1'' \<in> set (map fst (columns experiments)) then
        (case getattr_col experiments ''c1'' of Inl e \<Rightarrow> Inl e | Inr c1 \<Rightarrow>
        (case compare_scalar (\<lambda>x. x \<le> 25) c1 of Inl e \<Rightarrow> Inl e | Inr m1 \<Rightarrow>
        (case getattr_col experiments ''c2'' of Inl e \<Rightarrow> Inl e | Inr c2 \<Rightarrow>
        (case compare_scalar (\<lambda>x. x \<ge> float64 7.7) c2 of Inl e \<Rightarrow> Inl e | Inr m2 \<Rightarrow>
        (case mask_and m1 m2 of Inl e \<Rightarrow> Inl e | Inr bmask \<Rightarrow>
        (case loc_mask experiments bmask of Inl e \<Rightarrow> Inl e | Inr selected \<Rightarrow>
           compute_hypervolume d selected [(''f1'', 140), (''f2'', 50)]))))))
      else compute_hypervolume d experiments [(''f1'', 140), (''f2'', 50)])"

text \<open>
  The specification's wording of the selection, "exactly the rows satisfying c1 <= 25 and
  c2 >= 7.7": the table made of the rows at given positions, in order.
\<close>

fun col_rows_at :: "column \<Rightarrow> nat list \<Rightarrow> column" where
  "col_rows_at (FloatCol xs) ps = FloatCol (map ((!) xs) ps)"
| "col_rows_at (StrCol ss) ps = StrCol (map ((!) ss) ps)"

definition rows_at :: "dataframe \<Rightarrow> nat list \<Rightarrow> dataframe" where
  "rows_at df ps =
     \<lparr>columns = map (\<lambda>(k, c). (k, col_rows_at c ps)) (columns df),
      index = map ((!) (index df)) ps\<rparr>"

section \<open>The notebooks, cell by cell\<close>

text \<open>
  A notebook is executed cell by cell, and the first cell that raises ends the
  execution. A cell acts on the variables of the notebook. Cells that only import,
  print, take the time or display a value are left out.
\<close>

fun run_cells :: "('st \<Rightarrow> (error + unit) \<times> 'st) list \<Rightarrow> 'st \<Rightarrow> (error + unit) \<times> 'st" where
  "run_cells [] st = (Inr (), st)"
| "run_cells (c # cs) st =
     (case c st of (Inl e, st') \<Rightarrow> (Inl e, st') | (Inr u, st') \<Rightarrow> run_cells cs st')"

subsection \<open>The reaction notebook\<close>
























subsection \<open>The BNH notebook\<close>













section \<open>Example strategies and libraries\<close>











section \<open>The yield formula as the specification states it\<close>

text \<open>
  These follow the words of the specification, not the code: the density of each of the
  three solvents (the specification names no other solvent, and the value 0 given to any
  other name is never used), the three factors, and the yield 0.5*y*(1+Vfact). They are
  given for a rounding \<open>r\<close> that is applied to the result of every operation and to the
  decimal literals that are not float64 numbers themselves (0.1, 0.4 and the densities):
  with the identity for \<open>r\<close> the formulas are those of exact arithmetic, with \<open>float64\<close>
  they are evaluated as Python evaluates them.
\<close>

definition density_spec :: "string \<Rightarrow> real" where
  "density_spec S = (if S = ''MeOH'' then 0.792 else if S = ''THF'' then 0.886
                     else if S = ''Dioxane'' then 1.03 else 0)"

definition Tfact_spec :: "(real \<Rightarrow> real) \<Rightarrow> real \<Rightarrow> real" where
  "Tfact_spec r T =
     r (r (r (exp (r (r (100 + T) / 25))) - r (exp (r (100 / 25))))
        / r (r (exp (r (160 / 25))) - r (exp (r (100 / 25)))))"

definition rhofact_spec :: "(real \<Rightarrow> real) \<Rightarrow> string \<Rightarrow> real \<Rightarrow> real" where
  "rhofact_spec r S T = r (r (r (1.5 - r (density_spec S)) * r (Tfact_spec r T + 0.5)) / 2)"

definition Vfact_spec :: "(real \<Rightarrow> real) \<Rightarrow> real \<Rightarrow> real" where
  "Vfact_spec r V =
     r (r (0.5 + r (r (r (r (V - 20) / 70) - 0.75) * r 0.1))
        + r ((r (r (r (V - 20) / 70) - r 0.4)) ^ 2))"


text \<open>The same with the last step in the form 0.5*y + 0.5*y*Vfact.\<close>

definition yield_sum :: "(real \<Rightarrow> real) \<Rightarrow> real \<Rightarrow> real \<Rightarrow> string \<Rightarrow> real" where
  "yield_sum r T V S =
     (let y = r (r (25 * Tfact_spec r T) + r (90 * rhofact_spec r S T))
      in r (r (0.5 * y) + r (r (0.5 * y) * Vfact_spec r V)))"

section \<open>Properties\<close>

subsection \<open>Rounding to float64\<close>

lemma rne_of_int: "rne (of_int n) = n"
  by (simp add: rne_def)

lemma rne_bounds: "\<lfloor>x\<rfloor> \<le> rne x \<and> rne x \<le> \<lfloor>x\<rfloor> + 1"
  by (simp add: rne_def Let_def)

lemma rne_mono: "x \<le> y \<Longrightarrow> rne x \<le> rne y"
proof -
  assume le: "x \<le> y"
  then have "\<lfloor>x\<rfloor> \<le> \<lfloor>y\<rfloor>" by (rule floor_mono)
  then consider "\<lfloor>x\<rfloor> = \<lfloor>y\<rfloor>" | "\<lfloor>x\<rfloor> + 1 \<le> \<lfloor>y\<rfloor>" by linarith
  then show ?thesis
  proof cases
    case 1
    with le show ?thesis by (auto simp: rne_def Let_def)
  next
    case 2
    with rne_bounds [of x] rne_bounds [of y] show ?thesis by linarith
  qed
qed

lemma rne_minus: "rne (- x) = - rne x"
proof (cases "x \<in> \<int>")
  case True
  then obtain n where "x = of_int n" by (auto elim: Ints_cases)
  then show ?thesis using rne_of_int [of "- n"] rne_of_int [of n] by simp
next
  case False
  then have ne: "x \<noteq> of_int \<lfloor>x\<rfloor>" by (metis Ints_of_int)
  then have f: "\<lfloor>- x\<rfloor> = - \<lfloor>x\<rfloor> - 1"
    by (simp add: floor_minus ceiling_altdef)
  show ?thesis
    unfolding rne_def Let_def f by (auto simp: algebra_simps)
qed

lemma rne_eqI: "\<bar>x - of_int n\<bar> < 1 / 2 \<Longrightarrow> rne x = n"
proof -
  assume a: "\<bar>x - of_int n\<bar> < 1 / 2"
  show ?thesis
  proof (cases "of_int n \<le> x")
    case True
    with a have "\<lfloor>x\<rfloor> = n" by (intro floor_unique) auto
    with a True show ?thesis by (auto simp: rne_def Let_def)
  next
    case False
    with a have "\<lfloor>x\<rfloor> = n - 1" by (intro floor_unique) auto
    with a False show ?thesis by (auto simp: rne_def Let_def)
  qed
qed

lemma ulp_exponent_minus: "ulp_exponent (- x) = ulp_exponent x"
  by (simp add: ulp_exponent_def)

lemma float64_minus: "float64 (- x) = - float64 x"
  by (simp add: float64_def ulp_exponent_minus rne_minus)

lemma float64_zero: "float64 0 = 0"
  using rne_of_int [of 0] by (simp add: float64_def)

lemma float64_nonneg: "0 \<le> x \<Longrightarrow> 0 \<le> float64 x"
proof -
  assume "0 \<le> x"
  then have "0 \<le> x / 2 powr of_int (ulp_exponent x)" by simp
  from rne_mono [OF this] rne_of_int [of 0] have "0 \<le> rne (x / 2 powr of_int (ulp_exponent x))"
    by simp
  then show ?thesis by (simp add: float64_def)
qed

lemma binade_of_pos:
  assumes "0 < x"
  shows "2 powr of_int \<lfloor>log 2 x\<rfloor> \<le> x \<and> x < 2 powr of_int (\<lfloor>log 2 x\<rfloor> + 1)"
  using floor_log_eq_powr_iff [of x 2 "\<lfloor>log 2 x\<rfloor>"] assms by simp

lemma ulp_exponent_binade:
  assumes "2 powr of_int k \<le> \<bar>x\<bar>" "\<bar>x\<bar> < 2 powr of_int (k + 1)" "- 1022 \<le> k"
  shows "ulp_exponent x = k - 52"
proof -
  have "0 < (2::real) powr of_int k" by simp
  with assms(1) have pos: "0 < \<bar>x\<bar>" by linarith
  from assms(1,2) have "\<lfloor>log 2 \<bar>x\<bar>\<rfloor> = k"
    using floor_log_eq_powr_iff [OF pos, of 2 k] by simp
  with assms(3) show ?thesis by (simp add: ulp_exponent_def)
qed

lemma float64_eqI:
  assumes "2 powr of_int k \<le> \<bar>x\<bar>" "\<bar>x\<bar> < 2 powr of_int (k + 1)" "- 1022 \<le> k"
    and "\<bar>x / 2 powr of_int (k - 52) - of_int n\<bar> < 1 / 2"
  shows "float64 x = of_int n * 2 powr of_int (k - 52)"
  unfolding float64_def ulp_exponent_binade [OF assms(1-3)] rne_eqI [OF assms(4)] ..

lemma rne_tie: "even n \<Longrightarrow> rne (of_int n + 1 / 2) = n"
proof -
  have "\<lfloor>of_int n + 1 / 2 :: real\<rfloor> = n" by (intro floor_unique) simp_all
  moreover assume "even n"
  ultimately show ?thesis by (simp add: rne_def Let_def)
qed

lemma float64_tieI:
  assumes "2 powr of_int k \<le> \<bar>x\<bar>" "\<bar>x\<bar> < 2 powr of_int (k + 1)" "- 1022 \<le> k"
    and "x / 2 powr of_int (k - 52) = of_int n + 1 / 2" "even n"
  shows "float64 x = of_int n * 2 powr of_int (k - 52)"
  unfolding float64_def ulp_exponent_binade [OF assms(1-3)] assms(4) rne_tie [OF assms(5)] ..

lemma float64_upper:
  assumes "0 < x"
  shows "float64 x \<le> 2 powr of_int (ulp_exponent x + 53)"
proof -
  let ?e = "ulp_exponent x"
  let ?u = "2 powr of_int ?e :: real"
  have "\<lfloor>log 2 x\<rfloor> + 1 \<le> ?e + 53" using assms by (simp add: ulp_exponent_def)
  then have "(2::real) powr of_int (\<lfloor>log 2 x\<rfloor> + 1) \<le> 2 powr of_int (?e + 53)"
    by (intro powr_mono) simp_all
  with binade_of_pos [OF assms] have "x \<le> 2 powr of_int (?e + 53)" by linarith
  also have "\<dots> = 2 powr 53 * ?u" by (simp add: powr_add)
  finally have "x / ?u \<le> 2 powr 53" by (simp add: field_simps)
  also have "(2::real) powr 53 = of_int (2 ^ 53)" by simp
  finally have "rne (x / ?u) \<le> 2 ^ 53" using rne_mono rne_of_int by metis
  then have "of_int (rne (x / ?u)) * ?u \<le> of_int (2 ^ 53) * ?u"
    by (intro mult_right_mono) simp_all
  also have "\<dots> = 2 powr of_int (?e + 53)" by (simp add: powr_add)
  finally show ?thesis by (simp add: float64_def)
qed

lemma float64_lower:
  assumes "0 < x" "- 1022 \<le> \<lfloor>log 2 x\<rfloor>"
  shows "2 powr of_int (ulp_exponent x + 52) \<le> float64 x"
proof -
  let ?e = "ulp_exponent x"
  let ?u = "2 powr of_int ?e :: real"
  have e: "?e + 52 = \<lfloor>log 2 x\<rfloor>" using assms by (simp add: ulp_exponent_def)
  with binade_of_pos [OF assms(1)] have "2 powr of_int (?e + 52) \<le> x" by simp
  moreover have "2 powr of_int (?e + 52) = 2 powr 52 * ?u" by (simp add: powr_add)
  ultimately have "2 powr 52 \<le> x / ?u" by (simp add: field_simps)
  moreover have "(2::real) powr 52 = of_int (2 ^ 52)" by simp
  ultimately have "2 ^ 52 \<le> rne (x / ?u)" using rne_mono rne_of_int by metis
  then have "of_int (2 ^ 52) * ?u \<le> of_int (rne (x / ?u)) * ?u"
    by (intro mult_right_mono) simp_all
  moreover have "of_int (2 ^ 52) * ?u = 2 powr of_int (?e + 52)" by (simp add: powr_add)
  ultimately show ?thesis unfolding float64_def by (simp only:)
qed

lemma float64_mono_pos:
  assumes "0 < x" "x \<le> y"
  shows "float64 x \<le> float64 y"
proof -
  from assms have y: "0 < y" by simp
  define a where "a = \<lfloor>log 2 x\<rfloor>"
  define b where "b = \<lfloor>log 2 y\<rfloor>"
  from assms have "log 2 x \<le> log 2 y" by simp
  then have ab: "a \<le> b" unfolding a_def b_def by (rule floor_mono)
  have ex: "ulp_exponent x = max a (- 1022) - 52"
    using assms(1) by (simp add: ulp_exponent_def a_def)
  have ey: "ulp_exponent y = max b (- 1022) - 52"
    using y by (simp add: ulp_exponent_def b_def)
  from ab ex ey consider "ulp_exponent x = ulp_exponent y" | "ulp_exponent x + 1 \<le> ulp_exponent y"
    by linarith
  then show ?thesis
  proof cases
    case 1
    from assms(2) have "x / 2 powr of_int (ulp_exponent y) \<le> y / 2 powr of_int (ulp_exponent y)"
      by (simp add: divide_right_mono)
    from rne_mono [OF this] show ?thesis
      unfolding float64_def 1 by (intro mult_right_mono) simp_all
  next
    case 2
    with ex ey have "- 1022 \<le> b" by linarith
    then have n: "- 1022 \<le> \<lfloor>log 2 y\<rfloor>" unfolding b_def .
    from 2 have "(2::real) powr of_int (ulp_exponent x + 53) \<le> 2 powr of_int (ulp_exponent y + 52)"
      by (intro powr_mono) simp_all
    with float64_upper [OF assms(1)] float64_lower [OF y n] show ?thesis by linarith
  qed
qed

lemma float64_mono: "x \<le> y \<Longrightarrow> float64 x \<le> float64 y"
proof -
  assume le: "x \<le> y"
  consider "0 < x" | "x \<le> 0" "0 \<le> y" | "y < 0" by linarith
  then show ?thesis
  proof cases
    case 1
    with le show ?thesis by (intro float64_mono_pos)
  next
    case 2
    from float64_nonneg [of "- x"] 2(1) have "float64 x \<le> 0" by (simp add: float64_minus)
    with float64_nonneg [OF 2(2)] show ?thesis by simp
  next
    case 3
    with le have "0 < - y" "- y \<le> - x" by simp_all
    from float64_mono_pos [OF this] show ?thesis by (simp add: float64_minus)
  qed
qed

lemma float64_of_int_pos:
  assumes "0 < n" "n < 2 ^ 53"
  shows "float64 (of_int n) = of_int n"
proof -
  let ?x = "of_int n :: real"
  define e where "e = ulp_exponent ?x"
  have pos: "0 < ?x" using assms(1) by simp
  from assms(2) have "?x < of_int (2 ^ 53)" by (simp only: of_int_less_iff)
  also have "(of_int (2 ^ 53) :: real) = 2 powr 53" by simp
  finally have "log 2 ?x < 53" using pos by (simp only: log_less_iff one_less_numeral_iff semiring_norm)
  then have "\<lfloor>log 2 ?x\<rfloor> < 53" by (simp only: floor_less_iff of_int_numeral)
  moreover have "\<bar>?x\<bar> = ?x" using pos by simp
  ultimately have e: "e \<le> 0" unfolding e_def ulp_exponent_def by simp
  define k where "k = nat (- e)"
  have u: "2 powr of_int e = (1 / 2 ^ k :: real)"
  proof -
    from e have "of_int e = - real k" by (simp add: k_def)
    then have "2 powr of_int e = (1 / 2 powr real k :: real)" by (simp add: powr_minus divide_inverse)
    then show ?thesis by (simp add: powr_realpow)
  qed
  have "?x / 2 powr of_int e = of_int (n * 2 ^ k)" by (simp add: u)
  then have "rne (?x / 2 powr of_int e) = n * 2 ^ k" by (simp only: rne_of_int)
  then show ?thesis
    unfolding float64_def e_def [symmetric] by (simp add: u)
qed

lemma float64_of_int:
  assumes "\<bar>n\<bar> < 2 ^ 53"
  shows "float64 (of_int n) = of_int n"
proof -
  consider "0 < n" | "n = 0" | "n < 0" by linarith
  then show ?thesis
  proof cases
    case 1
    with assms show ?thesis by (intro float64_of_int_pos) simp_all
  next
    case 2
    then show ?thesis by (simp add: float64_zero)
  next
    case 3
    with assms have "float64 (of_int (- n)) = of_int (- n)" by (intro float64_of_int_pos) simp_all
    then show ?thesis by (simp add: float64_minus)
  qed
qed

lemma float64_numeral: "numeral w < (2 ^ 53 :: int) \<Longrightarrow> float64 (numeral w) = numeral w"
  using float64_of_int [of "numeral w"] by simp


subsection \<open>Module data as initialised\<close>

lemma np_exp_mono: "x \<le> y \<Longrightarrow> np_exp x \<le> np_exp y"
  unfolding np_exp_def by (intro float64_mono) simp

lemma module_init_sel:
  "T0 module_init = 25" "T1 module_init = 100"
  "e0 module_init = np_exp 4" "e60 module_init = np_exp (float64 (32 / 5))"
  "de module_init = sub64 (np_exp (float64 (32 / 5))) (np_exp 4)"
  by (simp_all add: module_init_def Let_def div64_def float64_numeral)

lemma np_exp_4_le: "np_exp 4 \<le> 81"
proof -
  have "exp (4::real) = exp 1 ^ 4" using exp_of_nat_mult [of 4 "1::real"] by simp
  also have "\<dots> \<le> 3 ^ 4" by (intro power_mono exp_le) simp
  finally have "exp (4::real) \<le> 81" by simp
  from float64_mono [OF this] show ?thesis by (simp add: np_exp_def float64_numeral)
qed

lemma np_exp_6_ge: "125 \<le> np_exp (float64 (32 / 5))"
proof -
  have "(5::real) \<le> exp 2" using exp_lower_Taylor_quadratic [of "2::real"] by simp
  then have "(5::real) ^ 3 \<le> exp 2 ^ 3" by (intro power_mono) simp_all
  also have "\<dots> = exp (6::real)" using exp_of_nat_mult [of 3 "2::real"] by simp
  finally have 1: "(125::real) \<le> exp 6" by simp
  have "float64 6 \<le> float64 (32 / 5)" by (intro float64_mono) simp
  then have "(6::real) \<le> float64 (32 / 5)" by (simp add: float64_numeral)
  then have "exp (6::real) \<le> exp (float64 (32 / 5))" by simp
  with 1 have "(125::real) \<le> exp (float64 (32 / 5))" by linarith
  from float64_mono [OF this] show ?thesis by (simp add: np_exp_def float64_numeral)
qed

lemma de_init_pos: "0 < de module_init"
proof -
  from np_exp_4_le np_exp_6_ge have "(44::real) \<le> np_exp (float64 (32 / 5)) - np_exp 4" by linarith
  from float64_mono [OF this] have "44 \<le> de module_init"
    by (simp add: module_init_sel sub64_def float64_numeral)
  then show ?thesis by linarith
qed

lemma calc_Tfact_init:
  "calc_Tfact module_init T
     = div64 (sub64 (np_exp (div64 (add64 100 T) 25)) (np_exp 4)) (de module_init)"
  by (simp add: calc_Tfact_def Let_def module_init_sel)

lemma calc_Tfact_mono:
  assumes "a \<le> b"
  shows "calc_Tfact module_init a \<le> calc_Tfact module_init b"
proof -
  from assms have "add64 100 a \<le> add64 100 b"
    unfolding add64_def by (intro float64_mono) simp
  then have "div64 (add64 100 a) 25 \<le> div64 (add64 100 b) 25"
    unfolding div64_def by (intro float64_mono) (simp add: divide_right_mono)
  then have "np_exp (div64 (add64 100 a) 25) \<le> np_exp (div64 (add64 100 b) 25)"
    by (rule np_exp_mono)
  then have "sub64 (np_exp (div64 (add64 100 a) 25)) (np_exp 4)
           \<le> sub64 (np_exp (div64 (add64 100 b) 25)) (np_exp 4)"
    unfolding sub64_def by (intro float64_mono) simp
  then show ?thesis
    unfolding calc_Tfact_init div64_def using de_init_pos
    by (intro float64_mono divide_right_mono) simp_all
qed

lemma calc_Tfact_0: "calc_Tfact module_init 0 = 0"
  by (simp add: calc_Tfact_init add64_def div64_def sub64_def float64_numeral float64_zero)

lemma calc_Tfact_60: "calc_Tfact module_init 60 = 1"
proof -
  have "de module_init / de module_init = 1" using de_init_pos by simp
  moreover have "float64 1 = 1" using float64_of_int [of 1] by simp
  ultimately show ?thesis
    by (simp add: calc_Tfact_def Let_def module_init_sel add64_def div64_def float64_numeral
        flip: module_init_sel(5))
qed

lemma calc_Tfact_collide: "calc_Tfact module_init (1 / 2 ^ 50) = calc_Tfact module_init 0"
proof -
  have "float64 (100 + 1 / 2 ^ 50) = 100"
    by (subst float64_eqI [where k = 6 and n = "100 * 2 ^ 46"])
       (simp_all add: powr_neg_numeral powr_neg_one)
  then show ?thesis
    by (simp add: calc_Tfact_init add64_def float64_numeral)
qed

text \<open>
  C9, as amended. With the module data as the simulator cell initialises it, \<open>calc_Tfact\<close>
  is non-decreasing in the temperature, it is 0 at 0 degrees and 1 at 60 degrees, and so
  it lies in the interval from 0 to 1 for every temperature between 0 and 60. (Where the
  exponential overflows, from a temperature of about 17645 on, numpy's value is infinite
  on both sides of the inequality.)
\<close>

theorem calc_Tfact_nondecreasing_unit:
  "(\<forall>a b. a \<le> b \<longrightarrow> calc_Tfact module_init a \<le> calc_Tfact module_init b)
   \<and> calc_Tfact module_init 0 = 0
   \<and> calc_Tfact module_init 60 = 1
   \<and> (\<forall>T. 0 \<le> T \<and> T \<le> 60 \<longrightarrow>
          0 \<le> calc_Tfact module_init T \<and> calc_Tfact module_init T \<le> 1)"
proof -
  have rng: "0 \<le> calc_Tfact module_init T \<and> calc_Tfact module_init T \<le> 1"
    if "0 \<le> T" "T \<le> 60" for T
    using calc_Tfact_mono [OF that(1)] calc_Tfact_mono [OF that(2)]
    by (simp add: calc_Tfact_0 calc_Tfact_60)
  from calc_Tfact_mono calc_Tfact_0 calc_Tfact_60 rng show ?thesis by blast
qed

theorem calc_Tfact_nondecreasing_unit_witness:
  "(10::real) \<le> 20 \<and> calc_Tfact module_init 10 \<le> calc_Tfact module_init 20
   \<and> (0::real) \<le> 30 \<and> (30::real) \<le> 60
   \<and> 0 \<le> calc_Tfact module_init 30 \<and> calc_Tfact module_init 30 \<le> 1"
  using calc_Tfact_nondecreasing_unit by simp

text \<open>
  C9 as stated fails: \<open>calc_Tfact\<close> is not strictly increasing. The sum 100 + T is
  rounded to a float64, and the float64 numbers next to 100 are 2^-46 apart, so the
  temperatures 0 and 2^-50 (both float64 numbers inside the domain) give the same sum
  and the same factor.
\<close>

theorem calc_Tfact_not_strict:
  "(0::real) < 1 / 2 ^ 50
   \<and> float64 (1 / 2 ^ 50) = 1 / 2 ^ 50
   \<and> calc_Tfact module_init (1 / 2 ^ 50) = calc_Tfact module_init 0"
proof -
  have "float64 (1 / 2 ^ 50) = 1 / 2 ^ 50"
    by (subst float64_eqI [where k = "- 50" and n = "2 ^ 52"])
       (simp_all add: powr_neg_numeral powr_neg_one)
  with calc_Tfact_collide show ?thesis by simp
qed

subsection \<open>Auxiliary facts\<close>

lemma get_by_key_key: "get_by_key fs k = Inr f \<Longrightarrow> key f = k"
  by (auto simp: get_by_key_def find_Some_iff split: option.splits)

lemma calc_Tfact_spec: "calc_Tfact module_init T = Tfact_spec float64 T"
  by (simp add: calc_Tfact_init Tfact_spec_def module_init_sel add64_def sub64_def div64_def
      np_exp_def float64_numeral)

lemma calc_volume_fact_spec: "calc_volume_fact V = Vfact_spec float64 V"
  by (simp add: calc_volume_fact_def Vfact_spec_def Let_def add64_def sub64_def mul64_def div64_def
      square64_def)

lemma density_column_init:
  "getitem (solvent_descriptors module_init) ''density'' = Inr (FloatCol (map snd (density module_init)))"
  by (simp add: module_init_def Let_def getitem_def)

lemma series_getitem_density:
  "set Ss \<subseteq> {''MeOH'', ''THF'', ''Dioxane''} \<Longrightarrow>
   series_getitem (zip (index (solvent_descriptors module_init)) (map snd (density module_init)))
      (map StrL Ss) = Inr (map (\<lambda>S. float64 (density_spec S)) Ss)"
  by (induction Ss) (auto simp: density_spec_def module_init_def Let_def)

lemma elementwise_eq: "length xs = length ys \<Longrightarrow> elementwise f xs ys = Inr (map2 f xs ys)"
  by (simp add: elementwise_def)

lemma calc_rhofact_init:
  assumes "set Ss \<subseteq> {''MeOH'', ''THF'', ''Dioxane''}" "length Tfact = length Ss"
  shows "calc_rhofact module_init (StrCol Ss) Tfact
           = Inr (map2 (\<lambda>x Tf. div64 (mul64 (sub64 1.5 x) (add64 Tf 0.5)) 2)
                    (map (\<lambda>S. float64 (density_spec S)) Ss) Tfact)"
  using assms
  by (simp add: calc_rhofact_def density_column_init series_getitem_density elementwise_def)

lemma yield_columns_fold:
  "length Ts = length Vs \<Longrightarrow> length Vs = length Ss \<Longrightarrow>
   map2 h (map2 f (map a Ts) (map2 k (map dn Ss) (map a Ts))) (map b Vs)
     = map (\<lambda>(T, V, S). h (f (a T) (k (dn S) (a T))) (b V)) (zip Ts (zip Vs Ss))"
  by (induction Ts Vs Ss rule: list_induct3) auto

lemma yield_sum_code:
  "add64 (mul64 0.5 (add64 (mul64 25 (calc_Tfact module_init T))
                       (mul64 90 (div64 (mul64 (sub64 1.5 (float64 (density_spec S)))
                                          (add64 (calc_Tfact module_init T) 0.5)) 2))))
     (mul64 (mul64 0.5 (add64 (mul64 25 (calc_Tfact module_init T))
                          (mul64 90 (div64 (mul64 (sub64 1.5 (float64 (density_spec S)))
                                             (add64 (calc_Tfact module_init T) 0.5)) 2))))
        (calc_volume_fact V))
   = yield_sum float64 T V S"
  by (simp add: yield_sum_def rhofact_spec_def calc_Tfact_spec calc_volume_fact_spec Let_def
      add64_def sub64_def mul64_def div64_def)

lemma samples_dict_init:
  assumes "key Tf = ''Temperature''" "key Vf = ''Solvent Volume''"
    and "key typef = ''Solvent Type''" "key yf = ''Yield''"
    and "length Ts = nat n" "length Vs = nat n" "length Ss = nat n" "0 \<le> n"
    and "set Ss \<subseteq> {''MeOH'', ''THF'', ''Dioxane''}"
  shows "samples_dict module_init Tf Vf typef yf n 25 90 (FloatCol Ts) (FloatCol Vs) (StrCol Ss)
         = Inr [(''Temperature'', FloatCol Ts), (''Solvent Volume'', FloatCol Vs),
                (''Yield'', FloatCol (map (\<lambda>(T, V, S). yield_sum float64 T V S) (zip Ts (zip Vs Ss)))),
                (''Solvent Type'', StrCol Ss),
                (''valid_Yield'', FloatCol (replicate (nat n) 1))]"
proof -
  let ?Tfact = "map (calc_Tfact module_init) Ts"
  let ?rho = "map2 (\<lambda>x Tf. div64 (mul64 (sub64 1.5 x) (add64 Tf 0.5)) 2)
                (map (\<lambda>S. float64 (density_spec S)) Ss) ?Tfact"
  let ?y1 = "map2 (\<lambda>t r. add64 (mul64 25 t) (mul64 90 r)) ?Tfact ?rho"
  let ?h = "\<lambda>y v. add64 (mul64 0.5 y) (mul64 (mul64 0.5 y) v)"
  let ?ys = "map (\<lambda>(T, V, S). yield_sum float64 T V S) (zip Ts (zip Vs Ss))"
  have rho: "calc_rhofact module_init (StrCol Ss) ?Tfact = Inr ?rho"
    using assms by (intro calc_rhofact_init) simp_all
  have e1: "elementwise (\<lambda>t r. add64 (mul64 25 t) (mul64 90 r)) ?Tfact ?rho = Inr ?y1"
    using assms by (intro elementwise_eq) simp
  have "elementwise ?h ?y1 (map calc_volume_fact Vs) = Inr (map2 ?h ?y1 (map calc_volume_fact Vs))"
    using assms by (intro elementwise_eq) simp
  also have "map2 ?h ?y1 (map calc_volume_fact Vs) = ?ys"
    using assms by (subst yield_columns_fold) (simp_all only: yield_sum_code)
  finally have e2: "elementwise ?h ?y1 (map calc_volume_fact Vs) = Inr ?ys" .
  show ?thesis
    unfolding samples_dict_def calc_Tfact_col_def calc_volume_fact_col_def
      np_unary.simps rho e1 e2 sum.case
    using assms(1-8)
    by (simp add: np_ones_def del: map_eq_conv)
qed

lemma samples_of_init:
  assumes "key Tf = ''Temperature''" "key Vf = ''Solvent Volume''"
    and "key typef = ''Solvent Type''" "key yf = ''Yield''"
    and "length Ts = nat n" "length Vs = nat n" "length Ss = nat n" "0 \<le> n"
    and "set Ss \<subseteq> {''MeOH'', ''THF'', ''Dioxane''}"
  shows "samples_of module_init Tf Vf typef yf n 25 90 (FloatCol Ts) (FloatCol Vs) (StrCol Ss)
         = Inr \<lparr>columns = [(''Temperature'', FloatCol Ts), (''Solvent Volume'', FloatCol Vs),
                           (''Yield'', FloatCol (map (\<lambda>(T, V, S). yield_sum float64 T V S) (zip Ts (zip Vs Ss)))),
                           (''Solvent Type'', StrCol Ss),
                           (''valid_Yield'', FloatCol (replicate (nat n) 1))],
                 index = RangeIndex (nat n)\<rparr>"
  unfolding samples_of_def samples_dict_init [OF assms] sum.case
  using assms(5-8)
  by (simp add: DataFrame_def set_index_def len_def RangeIndex_def del: map_eq_conv)

lemma samples_of_shape:
  assumes "samples_of m Tf Vf typef yf n A B T V S = Inr df"
    and "key Tf = ''Temperature''" "key Vf = ''Solvent Volume''"
    and "key typef = ''Solvent Type''" "key yf = ''Yield''"
  shows "\<exists>ys. columns df = [(''Temperature'', T), (''Solvent Volume'', V), (''Yield'', FloatCol ys),
                            (''Solvent Type'', S), (''valid_Yield'', FloatCol (replicate (nat n) 1))]
              \<and> index df = RangeIndex (nat n) \<and> 0 \<le> n
              \<and> col_len T = nat n \<and> col_len V = nat n \<and> length ys = nat n \<and> col_len S = nat n"
  using assms
  by (auto simp: samples_of_def samples_dict_def DataFrame_def set_index_def len_def
      RangeIndex_def np_ones_def split: sum.splits if_splits)



lemma Tfact_spec_float_0: "Tfact_spec float64 0 = 0"
  using calc_Tfact_0 by (simp add: calc_Tfact_spec)

lemma rho_MeOH_0: "rhofact_spec float64 ''MeOH'' 0 = 3188548536178311 / 18014398509481984"
proof -
  have d: "density_spec ''MeOH'' = 0.792" by (simp add: density_spec_def)
  have 1: "float64 0.792 = 3566850904877433 / 4503599627370496"
    by (subst float64_eqI [where k = "- 1" and n = 7133701809754866])
       (simp_all add: powr_neg_numeral powr_neg_one)
  have 2: "float64 (1.5 - 3566850904877433 / 4503599627370496) = 3188548536178311 / 4503599627370496"
    by (subst float64_eqI [where k = "- 1" and n = 6377097072356622])
       (simp_all add: powr_neg_numeral powr_neg_one)
  have 3: "float64 (0 + 0.5) = 1 / 2"
    by (subst float64_eqI [where k = "- 1" and n = 4503599627370496])
       (simp_all add: powr_neg_numeral powr_neg_one)
  have 4: "float64 (3188548536178311 / 4503599627370496 * (1 / 2)) = 3188548536178311 / 9007199254740992"
    by (subst float64_eqI [where k = "- 2" and n = 6377097072356622])
       (simp_all add: powr_neg_numeral powr_neg_one)
  have 5: "float64 (3188548536178311 / 9007199254740992 / 2) = 3188548536178311 / 18014398509481984"
    by (subst float64_eqI [where k = "- 3" and n = 6377097072356622])
       (simp_all add: powr_neg_numeral powr_neg_one)
  show ?thesis
    unfolding rhofact_spec_def Tfact_spec_float_0 d 1 2 3 4 5 ..
qed

lemma Vfact_20: "Vfact_spec float64 20 = 658651445502935 / 1125899906842624"
proof -
  have 0: "float64 (float64 (20 - 20) / 70) = 0" by (simp add: float64_zero)
  have 1: "float64 (0 - 0.75) = - (3 / 4)"
    by (subst float64_eqI [where k = "- 1" and n = "- 6755399441055744"])
       (simp_all add: powr_neg_numeral powr_neg_one)
  have 2: "float64 0.1 = 3602879701896397 / 36028797018963968"
    by (subst float64_eqI [where k = "- 4" and n = 7205759403792794])
       (simp_all add: powr_neg_numeral powr_neg_one)
  have 3: "float64 (- (3 / 4) * (3602879701896397 / 36028797018963968)) = - (1351079888211149 / 18014398509481984)"
    by (subst float64_tieI [where k = "- 4" and n = "- 5404319552844596"])
       (simp_all add: powr_neg_numeral powr_neg_one)
  have 4: "float64 (0.5 + - (1351079888211149 / 18014398509481984)) = 7656119366529843 / 18014398509481984"
    by (subst float64_eqI [where k = "- 2" and n = 7656119366529843])
       (simp_all add: powr_neg_numeral powr_neg_one)
  have 5: "float64 0.4 = 3602879701896397 / 9007199254740992"
    by (subst float64_eqI [where k = "- 2" and n = 7205759403792794])
       (simp_all add: powr_neg_numeral powr_neg_one)
  have 6: "float64 (0 - 3602879701896397 / 9007199254740992) = - (3602879701896397 / 9007199254740992)"
    by (subst float64_eqI [where k = "- 2" and n = "- 7205759403792794"])
       (simp_all add: powr_neg_numeral powr_neg_one)
  have 7: "float64 ((- (3602879701896397 / 9007199254740992)) ^ 2) = 1441151880758559 / 9007199254740992"
    by (subst float64_eqI [where k = "- 3" and n = 5764607523034236])
       (simp_all add: powr_neg_numeral powr_neg_one power2_eq_square)
  have 8: "float64 (7656119366529843 / 18014398509481984 + 1441151880758559 / 9007199254740992)
             = 658651445502935 / 1125899906842624"
    by (subst float64_tieI [where k = "- 1" and n = 5269211564023480])
       (simp_all add: powr_neg_numeral powr_neg_one)
  show ?thesis
    unfolding Vfact_spec_def 0 1 2 3 4 5 6 7 8 ..
qed

lemma y_MeOH_0:
  "float64 (float64 (25 * Tfact_spec float64 0) + float64 (90 * rhofact_spec float64 ''MeOH'' 0))
     = 2241948189500375 / 140737488355328"
proof -
  have 1: "float64 (25 * 0) = 0" by (simp add: float64_zero)
  have 2: "float64 (90 * (3188548536178311 / 18014398509481984)) = 2241948189500375 / 140737488355328"
    by (subst float64_eqI [where k = 3 and n = 8967792758001500])
       (simp_all add: powr_neg_numeral powr_neg_one)
  have 3: "float64 (0 + 2241948189500375 / 140737488355328) = 2241948189500375 / 140737488355328"
    by (subst float64_eqI [where k = 3 and n = 8967792758001500])
       (simp_all add: powr_neg_numeral powr_neg_one)
  show ?thesis
    unfolding Tfact_spec_float_0 rho_MeOH_0 1 2 3 ..
qed

lemma half_y: "float64 (0.5 * (2241948189500375 / 140737488355328)) = 2241948189500375 / 281474976710656"
  by (subst float64_eqI [where k = 2 and n = 8967792758001500])
     (simp_all add: powr_neg_numeral powr_neg_one)

lemma yield_sum_example: "yield_sum float64 0 20 ''MeOH'' = 1776743940179047 / 140737488355328"
proof -
  have 1: "float64 (2241948189500375 / 281474976710656 * (658651445502935 / 1125899906842624))
             = 5246158763430877 / 1125899906842624"
    by (subst float64_eqI [where k = 2 and n = 5246158763430877])
       (simp_all add: powr_neg_numeral powr_neg_one)
  have 2: "float64 (2241948189500375 / 281474976710656 + 5246158763430877 / 1125899906842624)
             = 1776743940179047 / 140737488355328"
    by (subst float64_tieI [where k = 3 and n = 7106975760716188])
       (simp_all add: powr_neg_numeral powr_neg_one)
  show ?thesis
    unfolding yield_sum_def Let_def y_MeOH_0 half_y Vfact_20 1 2 ..
qed




lemma create_experiments_shape:
  assumes "create_experiments m d ns A B cands g = (Inr df, g')"
  shows "\<exists>T V ys S n.
           columns df = [(''Temperature'', T), (''Solvent Volume'', V), (''Yield'', FloatCol ys),
                         (''Solvent Type'', S), (''valid_Yield'', FloatCol (replicate n 1))]
         \<and> index df = RangeIndex n
         \<and> col_len T = n \<and> col_len V = n \<and> length ys = n \<and> col_len S = n
         \<and> (case cands of None \<Rightarrow> int n = ns | Some c \<Rightarrow> n = len c)"
proof -
  from assms obtain Tf Vf typef yf where
    k: "get_by_key (inputs d) ''Temperature'' = Inr Tf"
       "get_by_key (inputs d) ''Solvent Volume'' = Inr Vf"
       "get_by_key (inputs d) ''Solvent Type'' = Inr typef"
       "get_by_key (outputs d) ''Yield'' = Inr yf"
    by (auto simp: create_experiments_def split: sum.splits)
  note keys = k [THEN get_by_key_key]
  from assms k obtain n T V S where
    s: "samples_of m Tf Vf typef yf n A B T V S = Inr df"
    and n: "case cands of None \<Rightarrow> n = ns | Some c \<Rightarrow> n = int (len c)"
    by (auto simp: create_experiments_def candidate_inputs_def Let_def
        split: sum.splits option.splits prod.splits)
  from samples_of_shape [OF s keys] n show ?thesis
    by (cases cands) auto
qed

lemma evaluate_shape_check:
  assumes "create_experiments m d ns A B cands g = (Inr df, g')"
  shows "(case cands of None \<Rightarrow> int (len df) = ns | Some c \<Rightarrow> len df = len c)
       \<and> index df = RangeIndex (len df)
       \<and> list_all (\<lambda>(k, c). col_len c = len df) (columns df)
       \<and> getitem df ''valid_Yield'' = Inr (FloatCol (replicate (len df) 1.0))"
  using create_experiments_shape [OF assms]
  by (auto simp: len_def RangeIndex_def getitem_def split: option.splits)

lemma create_candidates_drop:
  assumes "create_candidates m d ns g = (Inr cd, g')"
  shows "\<exists>df. create_experiments m d ns 25 90 None g = (Inr df, g')
            \<and> index cd = index df
            \<and> columns cd = filter (\<lambda>(k, c). k \<noteq> ''Yield'' \<and> k \<noteq> ''valid_Yield'') (columns df)"
  using assms
  by (auto simp: create_candidates_def drop_columns_def split: sum.splits prod.splits if_splits)

lemma candidates_fixed_generator:
  "snd (create_experiments m d ns A B (Some c) g) = g"
  by (simp add: create_experiments_def split: sum.splits prod.splits)

lemma candidates_generator_free:
  "fst (create_experiments m d ns A B (Some c) g1) = fst (create_experiments m d ns A B (Some c) g2)"
  by (simp add: create_experiments_def split: sum.splits prod.splits)

lemma candidates_three_columns:
  assumes "getitem c ''Temperature'' = getitem c' ''Temperature''"
    "getitem c ''Solvent Volume'' = getitem c' ''Solvent Volume''"
    "getitem c ''Solvent Type'' = getitem c' ''Solvent Type''"
    "len c = len c'"
  shows "fst (create_experiments m d ns A B (Some c) g1) = fst (create_experiments m d ns A B (Some c') g2)"
  using assms
  by (simp add: create_experiments_def candidate_inputs_def split: sum.splits prod.splits)


lemma reaction_lookups:
  "get_by_key (inputs reaction_domain) ''Temperature'' = Inr temperature_feature"
  "get_by_key (inputs reaction_domain) ''Solvent Volume'' = Inr solvent_amount_feature"
  "get_by_key (inputs reaction_domain) ''Solvent Type'' = Inr solvent_type_feature"
  "get_by_key (outputs reaction_domain) ''Yield'' = Inr yield_feature"
  by (simp_all add: get_by_key_def reaction_domain_def input_features_def output_features_def
      temperature_feature_def solvent_amount_feature_def solvent_type_feature_def yield_feature_def)

lemma random_sample_unit: "0 \<le> fst (random_sample g) \<and> fst (random_sample g) < 1"
  by (simp add: random_sample_def frac_lt_1)

lemma uniform1_range:
  assumes "low \<le> high"
  shows "low \<le> fst (uniform1 low high g) \<and> fst (uniform1 low high g) \<le> high"
proof -
  obtain u g' where r: "random_sample g = (u, g')" by (cases "random_sample g")
  with random_sample_unit [of g] have u: "0 \<le> u" "u < 1" by simp_all
  from assms u have "0 \<le> (high - low) * u" by simp
  moreover from assms u have "(high - low) * u \<le> (high - low) * 1"
    by (intro mult_left_mono) simp_all
  ultimately show ?thesis by (simp add: uniform1_def r)
qed

lemma uniform_n_range:
  assumes "low \<le> high"
  shows "length (fst (uniform_n low high n g)) = n
       \<and> (\<forall>x \<in> set (fst (uniform_n low high n g)). low \<le> x \<and> x \<le> high)"
proof (induction n arbitrary: g)
  case 0
  show ?case by simp
next
  case (Suc n)
  obtain x g1 where a: "uniform1 low high g = (x, g1)" by (cases "uniform1 low high g")
  obtain xs g2 where b: "uniform_n low high n g1 = (xs, g2)" by (cases "uniform_n low high n g1")
  from uniform1_range [OF assms, of g] a have "low \<le> x \<and> x \<le> high" by simp
  moreover from Suc [of g1] b have "length xs = n \<and> (\<forall>x \<in> set xs. low \<le> x \<and> x \<le> high)" by simp
  ultimately show ?case by (simp add: a b)
qed

lemma randint_0_3:
  "\<exists>i g'. np_random_randint 0 3 g = (Inr i, g') \<and> 0 \<le> i \<and> i < 3"
proof -
  obtain u g' where r: "random_sample g = (u, g')" by (cases "random_sample g")
  with random_sample_unit [of g] have u: "0 \<le> u" "u < 1" by simp_all
  then have "0 \<le> \<lfloor>u * 3\<rfloor>" "\<lfloor>u * 3\<rfloor> < 3" by (simp_all add: floor_less_iff)
  then show ?thesis by (simp add: np_random_randint_def r)
qed

lemma random_solvent_types_reaction:
  "\<exists>ss g'. random_solvent_types reaction_domain n g = (Inr ss, g')
     \<and> length ss = n \<and> set ss \<subseteq> {''MeOH'', ''THF'', ''Dioxane''}"
proof (induction n arbitrary: g)
  case 0
  show ?case by simp
next
  case (Suc n)
  obtain i g1 where i: "np_random_randint 0 3 g = (Inr i, g1)" "0 \<le> i" "i < 3"
    using randint_0_3 [of g] by blast
  then have "i = 0 \<or> i = 1 \<or> i = 2" by auto
  then obtain s where s: "list_getitem [''MeOH'', ''THF'', ''Dioxane''] i = Inr s"
    "s \<in> {''MeOH'', ''THF'', ''Dioxane''}"
    by (auto simp: list_getitem_def)
  from Suc [of g1] obtain ss g2 where
    ss: "random_solvent_types reaction_domain n g1 = (Inr ss, g2)" "length ss = n"
        "set ss \<subseteq> {''MeOH'', ''THF'', ''Dioxane''}"
    by blast
  from i s ss show ?case
    by (simp add: reaction_lookups solvent_type_feature_def)
qed


lemma random_inputs_reaction:
  assumes "0 \<le> n"
  shows "\<exists>Ts Vs Ss g'.
      random_inputs reaction_domain temperature_feature solvent_amount_feature n g
        = (Inr (FloatCol Ts, FloatCol Vs, StrCol Ss), g')
    \<and> length Ts = nat n \<and> length Vs = nat n \<and> length Ss = nat n
    \<and> (\<forall>T \<in> set Ts. 0 \<le> T \<and> T \<le> 60)
    \<and> (\<forall>V \<in> set Vs. 20 \<le> V \<and> V \<le> 90)
    \<and> set Ss \<subseteq> {''MeOH'', ''THF'', ''Dioxane''}"
proof -
  obtain Ts g1 where T: "uniform_n 0 60 (nat n) g = (Ts, g1)" by (cases "uniform_n 0 60 (nat n) g")
  obtain Vs g2 where V: "uniform_n 20 90 (nat n) g1 = (Vs, g2)" by (cases "uniform_n 20 90 (nat n) g1")
  obtain Ss g3 where S: "random_solvent_types reaction_domain (nat n) g2 = (Inr Ss, g3)"
    "length Ss = nat n" "set Ss \<subseteq> {''MeOH'', ''THF'', ''Dioxane''}"
    using random_solvent_types_reaction [of "nat n" g2] by blast
  have "length Ts = nat n \<and> (\<forall>x \<in> set Ts. 0 \<le> x \<and> x \<le> 60)"
    using uniform_n_range [of 0 60 "nat n" g] T by simp
  moreover have "length Vs = nat n \<and> (\<forall>x \<in> set Vs. 20 \<le> x \<and> x \<le> 90)"
    using uniform_n_range [of 20 90 "nat n" g1] V by simp
  ultimately show ?thesis
    using assms T V S
    by (simp add: random_inputs_def temperature_feature_def solvent_amount_feature_def
        np_random_uniform_def)
qed

lemma create_candidates_reaction:
  assumes "0 \<le> n"
  shows "\<exists>Ts Vs Ss g'.
      create_candidates module_init reaction_domain n g
        = (Inr \<lparr>columns = [(''Temperature'', FloatCol Ts), (''Solvent Volume'', FloatCol Vs),
                           (''Solvent Type'', StrCol Ss)],
                index = RangeIndex (nat n)\<rparr>, g')
    \<and> length Ts = nat n \<and> length Vs = nat n \<and> length Ss = nat n
    \<and> (\<forall>T \<in> set Ts. 0 \<le> T \<and> T \<le> 60)
    \<and> (\<forall>V \<in> set Vs. 20 \<le> V \<and> V \<le> 90)
    \<and> set Ss \<subseteq> {''MeOH'', ''THF'', ''Dioxane''}"
proof -
  from random_inputs_reaction [OF assms, of g] obtain Ts Vs Ss g' where
    r: "random_inputs reaction_domain temperature_feature solvent_amount_feature n g
        = (Inr (FloatCol Ts, FloatCol Vs, StrCol Ss), g')"
    and l: "length Ts = nat n" "length Vs = nat n" "length Ss = nat n"
    and b: "\<forall>T \<in> set Ts. 0 \<le> T \<and> T \<le> 60" "\<forall>V \<in> set Vs. 20 \<le> V \<and> V \<le> 90"
           "set Ss \<subseteq> {''MeOH'', ''THF'', ''Dioxane''}"
    by blast
  have s: "samples_of module_init temperature_feature solvent_amount_feature solvent_type_feature
             yield_feature n 25 90 (FloatCol Ts) (FloatCol Vs) (StrCol Ss)
         = Inr \<lparr>columns = [(''Temperature'', FloatCol Ts), (''Solvent Volume'', FloatCol Vs),
                           (''Yield'', FloatCol (map (\<lambda>(T, V, S). yield_sum float64 T V S) (zip Ts (zip Vs Ss)))),
                           (''Solvent Type'', StrCol Ss),
                           (''valid_Yield'', FloatCol (replicate (nat n) 1))],
                 index = RangeIndex (nat n)\<rparr>"
    using l assms b(3)
    by (intro samples_of_init)
       (simp_all add: temperature_feature_def solvent_amount_feature_def solvent_type_feature_def
          yield_feature_def)
  have "create_candidates module_init reaction_domain n g
        = (Inr \<lparr>columns = [(''Temperature'', FloatCol Ts), (''Solvent Volume'', FloatCol Vs),
                           (''Solvent Type'', StrCol Ss)],
                index = RangeIndex (nat n)\<rparr>, g')"
    by (simp add: create_candidates_def create_experiments_def reaction_lookups r s drop_columns_def)
  with l b show ?thesis by blast
qed


lemma evaluate_some_generator:
  "evaluate_experiments m d (Some c) g = (x, g') \<Longrightarrow> g' = g"
  using candidates_fixed_generator [of m d 100 25 90 c g]
  by (simp add: evaluate_experiments_def)


lemma loop_body_ok:
  assumes "loop_body S m d B st = (Inr u, st')"
  shows "\<exists>c x. trace st' = trace st @ [Ask 1 (Inr c), Evaluate c (Inr x), Tell x (Inr ())]
             \<and> fst (evaluate_experiments m d (Some c) (generator st)) = Inr x
             \<and> generator st' = generator st
             \<and> loop_i st' = loop_i st + 1
             \<and> loop_done st' = (loop_done st \<or> B < loop_i st + 1)"
  using assms
  by (auto simp: loop_body_def Let_def split: prod.splits sum.splits if_splits
      dest: evaluate_some_generator)

lemma loop_body_raise:
  assumes "loop_body S m d B st = (Inl e, st')"
  shows "\<exists>tail. trace st' = trace st @ tail \<and> aborted_round e tail
             \<and> (\<forall>c x. Evaluate c x \<in> set tail \<longrightarrow>
                    x = fst (evaluate_experiments m d (Some c) (generator st)))
             \<and> generator st' = generator st
             \<and> loop_i st' = loop_i st + 1"
  using assms
  by (auto simp: loop_body_def Let_def split: prod.splits sum.splits if_splits
      dest: evaluate_some_generator)




lemma loop_count_ok:
  "loop S m d B st = (Inr u, st') \<Longrightarrow> \<not> loop_done st \<Longrightarrow> loop_i st \<le> B \<Longrightarrow>
   loop_i st' = B + 1 \<and> length (trace st') = length (trace st) + 3 * nat (B + 1 - loop_i st)"
proof (induction S m d B st arbitrary: st' rule: loop.induct)
  case (1 S m d B st)
  obtain r1 st1 where b: "loop_body S m d B st = (r1, st1)"
    by (cases "loop_body S m d B st")
  from "1.prems" b obtain u1 where r1: "r1 = Inr u1"
    by (cases r1) simp_all
  from "1.prems" b r1 have l: "loop S m d B st1 = (Inr u, st')" by simp
  from loop_body_ok [OF b [unfolded r1]] "1.prems"(2) have
    t: "length (trace st1) = length (trace st) + 3"
    and i: "loop_i st1 = loop_i st + 1"
    and dn: "loop_done st1 = (B < loop_i st + 1)"
    by auto
  show ?case
  proof (cases "loop_done st1")
    case True
    with l have "st' = st1" by simp
    with t i dn True "1.prems"(3) show ?thesis by simp
  next
    case False
    with dn i have le: "loop_i st1 \<le> B" by simp
    from "1.IH" [OF "1.prems"(2) b [symmetric] r1 l False le] t i le
    show ?thesis by (simp add: nat_add_distrib nat_diff_distrib')
  qed
qed

lemma loop_count_raise:
  "loop S m d B st = (Inl e, st') \<Longrightarrow> loop_i st \<le> B \<Longrightarrow>
   loop_i st < loop_i st' \<and> loop_i st' \<le> B + 1"
proof (induction S m d B st arbitrary: st' rule: loop.induct)
  case (1 S m d B st)
  from "1.prems" have nd: "\<not> loop_done st" by (auto split: if_splits)
  obtain r1 st1 where b: "loop_body S m d B st = (r1, st1)"
    by (cases "loop_body S m d B st")
  show ?case
  proof (cases r1)
    case (Inl e1)
    with "1.prems" nd b have "st' = st1" by simp
    with loop_body_raise [OF b [unfolded Inl]] "1.prems"(2) show ?thesis by auto
  next
    case (Inr u1)
    with "1.prems" nd b have l: "loop S m d B st1 = (Inl e, st')" by simp
    from loop_body_ok [OF b [unfolded Inr]] nd have
      i: "loop_i st1 = loop_i st + 1" and dn: "loop_done st1 = (B < loop_i st + 1)"
      by auto
    from l have "\<not> loop_done st1" by (auto split: if_splits)
    with dn i have le: "loop_i st1 \<le> B" by simp
    from "1.IH" [OF nd b [symmetric] Inr l le] i show ?thesis by simp
  qed
qed


lemma loop_returns:
  "(\<And>s. \<exists>c s' x. ask S 1 s = (Inr c, s')
                 \<and> fst (evaluate_experiments m d (Some c) g) = Inr x) \<Longrightarrow>
   (\<And>x s. \<exists>s'. tell S x s = (Inr (), s')) \<Longrightarrow>
   generator st = g \<Longrightarrow> fst (loop S m d B st) = Inr ()"
proof (induction S m d B st rule: loop.induct)
  case (1 S m d B st)
  note A = "1.prems"(1) and T = "1.prems"(2)
  show ?case
  proof (cases "loop_done st")
    case True
    then show ?thesis by simp
  next
    case False
    from A [of "sobo_strategy st"] obtain c s1 x where
      a: "ask S 1 (sobo_strategy st) = (Inr c, s1)"
      and e: "fst (evaluate_experiments m d (Some c) g) = Inr x"
      by blast
    from e evaluate_some_generator [of m d c g] have e': "evaluate_experiments m d (Some c) g = (Inr x, g)"
      by (cases "evaluate_experiments m d (Some c) g") simp
    from T [of x s1] obtain s2 where t: "tell S x s1 = (Inr (), s2)" by blast
    obtain st1 where b: "loop_body S m d B st = (Inr (), st1)" and g1: "generator st1 = g"
      using a e' t "1.prems"(3) by (simp add: loop_body_def Let_def)
    from "1.IH" [OF False b [symmetric] refl A T g1] False b show ?thesis by simp
  qed
qed



lemma optimization_loop_bounds:
  assumes "\<not> truthy v"
  shows "0 < loop_i (snd (optimization_loop S m d v s g))
       \<and> loop_i (snd (optimization_loop S m d v s g)) \<le> 11"
proof -
  let ?st = "\<lparr>loop_i = 0, loop_done = False, sobo_strategy = s, generator = g, trace = []\<rparr>"
  obtain r st' where l: "loop S m d 10 ?st = (r, st')" by (cases "loop S m d 10 ?st")
  have "0 < loop_i st' \<and> loop_i st' \<le> 11"
  proof (cases r)
    case (Inl e)
    from loop_count_raise [OF l [unfolded Inl]] show ?thesis by simp
  next
    case (Inr u)
    from loop_count_ok [OF l [unfolded Inr]] show ?thesis by simp
  qed
  with assms l show ?thesis by (simp add: optimization_loop_def Let_def)
qed





lemma float64_threshold:
  assumes "float64 x = x"
  shows "(float64 7.7 \<le> x) = (7.7 \<le> x)"
proof -
  have v: "float64 7.7 = 8669429282688205 / 1125899906842624"
    by (subst float64_eqI [where k = 2 and n = 8669429282688205])
       (simp_all add: powr_neg_numeral powr_neg_one)
  show ?thesis
  proof
    assume "float64 7.7 \<le> x"
    with v show "7.7 \<le> x" by simp
  next
    assume "7.7 \<le> x"
    from float64_mono [OF this] assms show "float64 7.7 \<le> x" by simp
  qed
qed

lemma filter_mask_positions:
  "length bs = length xs \<Longrightarrow>
   filter_mask bs xs = map ((!) xs) (filter ((!) bs) [0..<length xs])"
proof (induction xs arbitrary: bs rule: rev_induct)
  case Nil
  then show ?case by (simp add: filter_mask_def)
next
  case (snoc x xs)
  from snoc.prems obtain b bs' where bs: "bs = bs' @ [b]" "length bs' = length xs"
    by (cases bs rule: rev_cases) auto
  have 1: "filter ((!) (bs' @ [b])) [0..<length xs] = filter ((!) bs') [0..<length xs]"
    using bs(2) by (intro filter_cong) (simp_all add: nth_append)
  have 2: "map ((!) (xs @ [x])) (filter ((!) bs') [0..<length xs])
         = map ((!) xs) (filter ((!) bs') [0..<length xs])"
    by (intro map_cong) (simp_all add: nth_append)
  have 3: "(bs' @ [b]) ! length xs = b"
    using bs(2) by (metis nth_append_length)
  from snoc.IH [OF bs(2)] bs(2) show ?case
    by (simp add: bs(1) filter_mask_def 1 2 3)
qed

lemma col_filter_mask_positions:
  "length bs = col_len c \<Longrightarrow>
   col_filter_mask bs c = col_rows_at c (filter ((!) bs) [0..<length bs])"
  by (cases c) (simp_all add: filter_mask_positions)

lemma loc_mask_rows_at:
  assumes "list_all (\<lambda>(k, c). col_len c = len df) (columns df)" "length bs = len df"
  shows "loc_mask df bs = Inr (rows_at df (filter ((!) bs) [0..<len df]))"
proof -
  have "map (\<lambda>(k, c). (k, col_filter_mask bs c)) (columns df)
      = map (\<lambda>(k, c). (k, col_rows_at c (filter ((!) bs) [0..<len df]))) (columns df)"
    using assms by (intro map_cong) (auto simp: list_all_iff col_filter_mask_positions)
  moreover have "filter_mask bs (index df) = map ((!) (index df)) (filter ((!) bs) [0..<len df])"
    using assms(2) by (simp add: filter_mask_positions len_def)
  ultimately show ?thesis
    using assms(2) by (simp add: loc_mask_def rows_at_def)
qed

subsection \<open>Results of the simulator\<close>

lemma random_inputs_nonneg:
  "random_inputs d (ContinuousInput k lo hi) Vf n g = (Inr r, g') \<Longrightarrow> 0 \<le> n"
  by (auto simp: random_inputs_def np_random_uniform_def split: if_splits)

lemma create_candidates_reaction_any_module:
  assumes "create_candidates m reaction_domain n g = (Inr cd, g')"
  shows "\<exists>Ts Vs Ss.
      columns cd = [(''Temperature'', FloatCol Ts), (''Solvent Volume'', FloatCol Vs),
                    (''Solvent Type'', StrCol Ss)]
    \<and> index cd = RangeIndex (nat n) \<and> 0 \<le> n
    \<and> length Ts = nat n \<and> length Vs = nat n \<and> length Ss = nat n
    \<and> (\<forall>T \<in> set Ts. 0 \<le> T \<and> T \<le> 60)
    \<and> (\<forall>V \<in> set Vs. 20 \<le> V \<and> V \<le> 90)
    \<and> set Ss \<subseteq> {''MeOH'', ''THF'', ''Dioxane''}"
proof -
  from create_candidates_drop [OF assms] obtain df where
    df: "create_experiments m reaction_domain n 25 90 None g = (Inr df, g')"
    and i: "index cd = index df"
    and c: "columns cd = filter (\<lambda>(k, c). k \<noteq> ''Yield'' \<and> k \<noteq> ''valid_Yield'') (columns df)"
    by blast
  from df obtain T V S where
    r: "random_inputs reaction_domain temperature_feature solvent_amount_feature n g = (Inr (T, V, S), g')"
    and s: "samples_of m temperature_feature solvent_amount_feature solvent_type_feature
              yield_feature n 25 90 T V S = Inr df"
    by (auto simp: create_experiments_def reaction_lookups split: sum.splits prod.splits)
  from r have n: "0 \<le> n"
    unfolding temperature_feature_def by (rule random_inputs_nonneg)
  from random_inputs_reaction [OF n, of g] r obtain Ts Vs Ss where
    tvs: "T = FloatCol Ts" "V = FloatCol Vs" "S = StrCol Ss"
    and l: "length Ts = nat n" "length Vs = nat n" "length Ss = nat n"
    and b: "\<forall>T \<in> set Ts. 0 \<le> T \<and> T \<le> 60" "\<forall>V \<in> set Vs. 20 \<le> V \<and> V \<le> 90"
           "set Ss \<subseteq> {''MeOH'', ''THF'', ''Dioxane''}"
    by auto
  have "\<exists>ys. columns df = [(''Temperature'', T), (''Solvent Volume'', V), (''Yield'', FloatCol ys),
                            (''Solvent Type'', S), (''valid_Yield'', FloatCol (replicate (nat n) 1))]
              \<and> index df = RangeIndex (nat n) \<and> 0 \<le> n
              \<and> col_len T = nat n \<and> col_len V = nat n \<and> length ys = nat n \<and> col_len S = nat n"
    by (rule samples_of_shape [OF s])
       (simp_all add: temperature_feature_def solvent_amount_feature_def solvent_type_feature_def
          yield_feature_def)
  with i c tvs l b n show ?thesis by auto
qed

lemma create_candidates_example:
  "create_candidates module_init reaction_domain 1 \<lparr>tape = (\<lambda>k. 1 / 2), pos = 0\<rparr>
     = (Inr \<lparr>columns = [(''Temperature'', FloatCol [30]), (''Solvent Volume'', FloatCol [55]),
                        (''Solvent Type'', StrCol [''THF''])],
             index = [IntL 0]\<rparr>,
        \<lparr>tape = (\<lambda>k. 1 / 2), pos = 3\<rparr>)"
  by (simp add: create_candidates_def create_experiments_def reaction_lookups random_inputs_def
      temperature_feature_def solvent_amount_feature_def solvent_type_feature_def yield_feature_def
      np_random_uniform_def uniform1_def random_sample_def frac_def np_random_randint_def
      list_getitem_def samples_of_def samples_dict_def calc_Tfact_col_def calc_volume_fact_col_def
      calc_rhofact_def getitem_def module_init_def Let_def
      elementwise_def np_ones_def DataFrame_def set_index_def len_def RangeIndex_def
      drop_columns_def numeral_3_eq_3)




text \<open>
  C2. Given candidates, the simulator is deterministic: the result does not depend on
  the state of the random generator, the generator is left where it was (no draw is
  made), and the result depends on the candidates only through the row count and the
  Temperature, Solvent Volume and Solvent Type columns.
\<close>

theorem evaluate_experiments_deterministic:
  assumes "candidates \<noteq> None"
  shows "fst (evaluate_experiments m d candidates g1) = fst (evaluate_experiments m d candidates g2)
       \<and> snd (evaluate_experiments m d candidates g1) = g1
       \<and> (\<forall>c c'. candidates = Some c
              \<and> getitem c' ''Temperature'' = getitem c ''Temperature''
              \<and> getitem c' ''Solvent Volume'' = getitem c ''Solvent Volume''
              \<and> getitem c' ''Solvent Type'' = getitem c ''Solvent Type''
              \<and> len c' = len c
            \<longrightarrow> fst (evaluate_experiments m d (Some c') g2)
                = fst (evaluate_experiments m d candidates g1))"
proof -
  from assms obtain c where c: "candidates = Some c" by auto
  have 1: "fst (evaluate_experiments m d candidates g1) = fst (evaluate_experiments m d candidates g2)"
    unfolding c evaluate_experiments_def by (rule candidates_generator_free)
  have 2: "snd (evaluate_experiments m d candidates g1) = g1"
    unfolding c evaluate_experiments_def by (rule candidates_fixed_generator)
  have 3: "fst (evaluate_experiments m d (Some c') g2) = fst (evaluate_experiments m d candidates g1)"
    if "getitem c' ''Temperature'' = getitem c ''Temperature''"
       "getitem c' ''Solvent Volume'' = getitem c ''Solvent Volume''"
       "getitem c' ''Solvent Type'' = getitem c ''Solvent Type''"
       "len c' = len c" for c'
    unfolding c evaluate_experiments_def using that by (rule candidates_three_columns)
  from 1 2 3 c show ?thesis by auto
qed

theorem evaluate_experiments_deterministic_witness:
  "fst (evaluate_experiments module_init reaction_domain
          (Some \<lparr>columns = [(''Temperature'', FloatCol [0]), (''Solvent Volume'', FloatCol [20]),
                            (''Solvent Type'', StrCol [''MeOH''])],
                 index = [IntL 0]\<rparr>)
          \<lparr>tape = (\<lambda>k. 0), pos = 0\<rparr>)
   = fst (evaluate_experiments module_init reaction_domain
          (Some \<lparr>columns = [(''Temperature'', FloatCol [0]), (''Solvent Volume'', FloatCol [20]),
                            (''Solvent Type'', StrCol [''MeOH''])],
                 index = [IntL 0]\<rparr>)
          \<lparr>tape = (\<lambda>k. 1 / 3), pos = 7\<rparr>)
   \<and> fst (evaluate_experiments module_init reaction_domain
          (Some \<lparr>columns = [(''Solvent Type'', StrCol [''MeOH'']), (''Temperature'', FloatCol [0]),
                            (''Yield_pred'', FloatCol [50]), (''Solvent Volume'', FloatCol [20])],
                 index = [IntL 5]\<rparr>)
          \<lparr>tape = (\<lambda>k. 1 / 3), pos = 7\<rparr>)
   = fst (evaluate_experiments module_init reaction_domain
          (Some \<lparr>columns = [(''Temperature'', FloatCol [0]), (''Solvent Volume'', FloatCol [20]),
                            (''Solvent Type'', StrCol [''MeOH''])],
                 index = [IntL 0]\<rparr>)
          \<lparr>tape = (\<lambda>k. 0), pos = 0\<rparr>)"
  using evaluate_experiments_deterministic [of
      "Some \<lparr>columns = [(''Temperature'', FloatCol [0]), (''Solvent Volume'', FloatCol [20]),
                        (''Solvent Type'', StrCol [''MeOH''])],
             index = [IntL 0]\<rparr>"
      module_init reaction_domain "\<lparr>tape = (\<lambda>k. 0), pos = 0\<rparr>" "\<lparr>tape = (\<lambda>k. 1 / 3), pos = 7\<rparr>",
      THEN conjunct2, THEN conjunct2, rule_format, of
      "\<lparr>columns = [(''Temperature'', FloatCol [0]), (''Solvent Volume'', FloatCol [20]),
                   (''Solvent Type'', StrCol [''MeOH''])],
        index = [IntL 0]\<rparr>"
      "\<lparr>columns = [(''Solvent Type'', StrCol [''MeOH'']), (''Temperature'', FloatCol [0]),
                   (''Yield_pred'', FloatCol [50]), (''Solvent Volume'', FloatCol [20])],
        index = [IntL 5]\<rparr>"]
    evaluate_experiments_deterministic [of
      "Some \<lparr>columns = [(''Temperature'', FloatCol [0]), (''Solvent Volume'', FloatCol [20]),
                        (''Solvent Type'', StrCol [''MeOH''])],
             index = [IntL 0]\<rparr>"
      module_init reaction_domain "\<lparr>tape = (\<lambda>k. 0), pos = 0\<rparr>" "\<lparr>tape = (\<lambda>k. 1 / 3), pos = 7\<rparr>",
      THEN conjunct1]
  by (simp add: getitem_def len_def)

text \<open>
  C8. Every table returned by \<open>create_experiments\<close> has n rows, n being nsamples when no
  candidates are given and the number of candidate rows otherwise; its index is the
  range index 0..n-1, every column has n entries and valid_Yield is 1.0 in every row.
  \<open>create_candidates\<close> returns the table of \<open>create_experiments\<close> without the Yield and
  valid_Yield columns.
\<close>

theorem create_experiments_rows:
  "(\<forall>df g'. create_experiments m d nsamples A B candidates g = (Inr df, g') \<longrightarrow>
      (case candidates of None \<Rightarrow> int (len df) = nsamples | Some c \<Rightarrow> len df = len c)
      \<and> index df = RangeIndex (len df)
      \<and> list_all (\<lambda>(k, c). col_len c = len df) (columns df)
      \<and> getitem df ''valid_Yield'' = Inr (FloatCol (replicate (len df) 1.0)))
   \<and> (\<forall>cd g'. create_candidates m d nsamples g = (Inr cd, g') \<longrightarrow>
        (\<exists>df. create_experiments m d nsamples 25 90 None g = (Inr df, g')
             \<and> index cd = index df
             \<and> columns cd = filter (\<lambda>(k, c). k \<noteq> ''Yield'' \<and> k \<noteq> ''valid_Yield'') (columns df)))"
  using evaluate_shape_check create_candidates_drop by blast

theorem create_experiments_rows_witness:
  "create_candidates module_init reaction_domain 1 \<lparr>tape = (\<lambda>k. 1 / 2), pos = 0\<rparr>
     = (Inr \<lparr>columns = [(''Temperature'', FloatCol [30]), (''Solvent Volume'', FloatCol [55]),
                        (''Solvent Type'', StrCol [''THF''])],
             index = [IntL 0]\<rparr>,
        \<lparr>tape = (\<lambda>k. 1 / 2), pos = 3\<rparr>)
   \<and> (\<exists>df. create_experiments module_init reaction_domain 1 25 90 None \<lparr>tape = (\<lambda>k. 1 / 2), pos = 0\<rparr>
              = (Inr df, \<lparr>tape = (\<lambda>k. 1 / 2), pos = 3\<rparr>)
           \<and> len df = 1 \<and> index df = [IntL 0]
           \<and> getitem df ''valid_Yield'' = Inr (FloatCol [1])
           \<and> filter (\<lambda>(k, c). k \<noteq> ''Yield'' \<and> k \<noteq> ''valid_Yield'') (columns df)
               = [(''Temperature'', FloatCol [30]), (''Solvent Volume'', FloatCol [55]),
                  (''Solvent Type'', StrCol [''THF''])])"
proof -
  let ?g = "\<lparr>tape = (\<lambda>k::nat. 1 / 2 :: real), pos = 0\<rparr>"
  let ?g' = "\<lparr>tape = (\<lambda>k::nat. 1 / 2 :: real), pos = 3\<rparr>"
  let ?cd = "\<lparr>columns = [(''Temperature'', FloatCol [30]), (''Solvent Volume'', FloatCol [55]),
                        (''Solvent Type'', StrCol [''THF''])],
             index = [IntL 0]\<rparr>"
  note e = create_candidates_example
  from create_experiments_rows [of module_init reaction_domain 1 25 90 None ?g, THEN conjunct2,
      rule_format, OF e]
  obtain df where df: "create_experiments module_init reaction_domain 1 25 90 None ?g = (Inr df, ?g')"
    and cols: "columns ?cd = filter (\<lambda>(k, c). k \<noteq> ''Yield'' \<and> k \<noteq> ''valid_Yield'') (columns df)"
    by blast
  from create_experiments_rows [of module_init reaction_domain 1 25 90 None ?g, THEN conjunct1,
      rule_format, OF df]
  have "len df = 1 \<and> index df = [IntL 0] \<and> getitem df ''valid_Yield'' = Inr (FloatCol [1])"
    by (auto simp: RangeIndex_def)
  with e df cols show ?thesis by auto
qed

text \<open>
  C10. Every row of a table returned by \<open>create_candidates\<close> on the notebook's reaction
  domain lies inside that domain, whatever the random generator produces: temperature
  from 0 to 60, solvent volume from 20 to 90, solvent one of MeOH, THF, Dioxane. With the
  module data as initialised and a non-negative nsamples the call does return, with
  nsamples rows.
\<close>

theorem create_candidates_in_domain:
  "(\<forall>cd g'. create_candidates m reaction_domain nsamples g = (Inr cd, g') \<longrightarrow>
      (\<exists>Ts Vs Ss.
          getitem cd ''Temperature'' = Inr (FloatCol Ts)
        \<and> getitem cd ''Solvent Volume'' = Inr (FloatCol Vs)
        \<and> getitem cd ''Solvent Type'' = Inr (StrCol Ss)
        \<and> length Ts = len cd \<and> length Vs = len cd \<and> length Ss = len cd
        \<and> (\<forall>i < len cd. 0 \<le> Ts ! i \<and> Ts ! i \<le> 60
                        \<and> 20 \<le> Vs ! i \<and> Vs ! i \<le> 90
                        \<and> Ss ! i \<in> {''MeOH'', ''THF'', ''Dioxane''})))
   \<and> (0 \<le> nsamples \<longrightarrow>
        (\<exists>cd g'. create_candidates module_init reaction_domain nsamples g = (Inr cd, g')
                \<and> int (len cd) = nsamples))"
proof (intro conjI allI impI)
  fix cd g'
  assume a: "create_candidates m reaction_domain nsamples g = (Inr cd, g')"
  from create_candidates_reaction_any_module [OF a] obtain Ts Vs Ss where
    c: "columns cd = [(''Temperature'', FloatCol Ts), (''Solvent Volume'', FloatCol Vs),
                    (''Solvent Type'', StrCol Ss)]"
    and i: "index cd = RangeIndex (nat nsamples)"
    and l: "length Ts = nat nsamples" "length Vs = nat nsamples" "length Ss = nat nsamples"
    and b: "\<forall>T \<in> set Ts. 0 \<le> T \<and> T \<le> 60" "\<forall>V \<in> set Vs. 20 \<le> V \<and> V \<le> 90"
           "set Ss \<subseteq> {''MeOH'', ''THF'', ''Dioxane''}"
    by blast
  from i have n: "len cd = nat nsamples" by (simp add: len_def RangeIndex_def)
  have "\<forall>i < len cd. 0 \<le> Ts ! i \<and> Ts ! i \<le> 60 \<and> 20 \<le> Vs ! i \<and> Vs ! i \<le> 90
                        \<and> Ss ! i \<in> {''MeOH'', ''THF'', ''Dioxane''}"
  proof (intro allI impI)
    fix i assume "i < len cd"
    with l n have "Ts ! i \<in> set Ts" "Vs ! i \<in> set Vs" "Ss ! i \<in> set Ss" by simp_all
    with b show "0 \<le> Ts ! i \<and> Ts ! i \<le> 60 \<and> 20 \<le> Vs ! i \<and> Vs ! i \<le> 90
                        \<and> Ss ! i \<in> {''MeOH'', ''THF'', ''Dioxane''}"
      by blast
  qed
  with c l n show "\<exists>Ts Vs Ss.
          getitem cd ''Temperature'' = Inr (FloatCol Ts)
        \<and> getitem cd ''Solvent Volume'' = Inr (FloatCol Vs)
        \<and> getitem cd ''Solvent Type'' = Inr (StrCol Ss)
        \<and> length Ts = len cd \<and> length Vs = len cd \<and> length Ss = len cd
        \<and> (\<forall>i < len cd. 0 \<le> Ts ! i \<and> Ts ! i \<le> 60
                        \<and> 20 \<le> Vs ! i \<and> Vs ! i \<le> 90
                        \<and> Ss ! i \<in> {''MeOH'', ''THF'', ''Dioxane''})"
    by (simp add: getitem_def)
next
  assume n: "0 \<le> nsamples"
  from create_candidates_reaction [OF n, of g]
  show "\<exists>cd g'. create_candidates module_init reaction_domain nsamples g = (Inr cd, g')
                \<and> int (len cd) = nsamples"
    using n by (auto simp: len_def RangeIndex_def)
qed

theorem create_candidates_in_domain_witness:
  "create_candidates module_init reaction_domain 1 \<lparr>tape = (\<lambda>k. 1 / 2), pos = 0\<rparr>
     = (Inr \<lparr>columns = [(''Temperature'', FloatCol [30]), (''Solvent Volume'', FloatCol [55]),
                        (''Solvent Type'', StrCol [''THF''])],
             index = [IntL 0]\<rparr>,
        \<lparr>tape = (\<lambda>k. 1 / 2), pos = 3\<rparr>)
   \<and> (0::real) \<le> 30 \<and> (30::real) \<le> 60 \<and> (20::real) \<le> 55 \<and> (55::real) \<le> 90
   \<and> ''THF'' \<in> {''MeOH'', ''THF'', ''Dioxane''}
   \<and> (0::int) \<le> 1
   \<and> (\<exists>cd g'. create_candidates module_init reaction_domain 1 \<lparr>tape = (\<lambda>k. 1 / 2), pos = 0\<rparr>
                  = (Inr cd, g') \<and> int (len cd) = 1)"
proof -
  let ?g = "\<lparr>tape = (\<lambda>k::nat. 1 / 2 :: real), pos = 0\<rparr>"
  note e = create_candidates_example
  from create_candidates_in_domain [where m = module_init and nsamples = 1 and g = ?g, THEN conjunct1, rule_format, OF e]
  have "(0::real) \<le> 30 \<and> (30::real) \<le> 60 \<and> (20::real) \<le> 55 \<and> (55::real) \<le> 90
   \<and> ''THF'' \<in> {''MeOH'', ''THF'', ''Dioxane''}"
    by (auto simp: getitem_def len_def)
  moreover from create_candidates_in_domain [where m = module_init and nsamples = 1 and g = ?g, THEN conjunct2, rule_format]
  have "\<exists>cd g'. create_candidates module_init reaction_domain 1 ?g = (Inr cd, g') \<and> int (len cd) = 1"
    by simp
  ultimately show ?thesis using e by simp
qed

subsection \<open>Iteration budgets, the metric and the loop\<close>







lemma run_cells_step:
  "c st = (Inr (), st') \<Longrightarrow> run_cells (c # cs) st = run_cells cs st'"
  by simp













text \<open>
  C4. \<open>hypervolume\<close> returns what the library's \<open>compute_hypervolume\<close> returns for the
  reference point f1=140, f2=50. For a table without a column c1 it is given the whole
  table; for a table with numeric columns c1 and c2 it is given exactly the rows with
  c1 <= 25 and c2 >= 7.7, in their order. The table has distinct column labels and
  columns of one length, and its c2 column holds float64 numbers: the code compares with
  the float64 nearest to 7.7, which lies just above 7.7 with no float64 between the two.
\<close>

theorem hypervolume_selection:
  assumes "list_all (\<lambda>(k, c). col_len c = len experiments) (columns experiments)"
    and "distinct (map fst (columns experiments))"
  shows "(''c1'' \<notin> set (map fst (columns experiments)) \<longrightarrow>
            hypervolume compute_hypervolume d experiments
              = compute_hypervolume d experiments [(''f1'', 140), (''f2'', 50)])
       \<and> (\<forall>c1 c2. getitem experiments ''c1'' = Inr (FloatCol c1)
                \<and> getitem experiments ''c2'' = Inr (FloatCol c2)
                \<and> (\<forall>x \<in> set c2. float64 x = x) \<longrightarrow>
            hypervolume compute_hypervolume d experiments
              = compute_hypervolume d
                  (rows_at experiments
                     (filter (\<lambda>i. c1 ! i \<le> 25 \<and> c2 ! i \<ge> 7.7) [0..<len experiments]))
                  [(''f1'', 140), (''f2'', 50)])"
proof (intro conjI allI impI)
  assume "''c1'' \<notin> set (map fst (columns experiments))"
  then show "hypervolume compute_hypervolume d experiments
              = compute_hypervolume d experiments [(''f1'', 140), (''f2'', 50)]"
    by (simp add: hypervolume_def)
next
  fix c1 c2
  assume a: "getitem experiments ''c1'' = Inr (FloatCol c1)
           \<and> getitem experiments ''c2'' = Inr (FloatCol c2)
           \<and> (\<forall>x \<in> set c2. float64 x = x)"
  then have m: "map_of (columns experiments) ''c1'' = Some (FloatCol c1)"
    "map_of (columns experiments) ''c2'' = Some (FloatCol c2)"
    by (auto simp: getitem_def split: option.splits)
  then have in1: "''c1'' \<in> set (map fst (columns experiments))"
    by (metis map_of_eq_None_iff option.distinct(1) set_map)
  from m have "(''c1'', FloatCol c1) \<in> set (columns experiments)"
    "(''c2'', FloatCol c2) \<in> set (columns experiments)"
    by (auto dest: map_of_SomeD)
  with assms(1) have l: "length c1 = len experiments" "length c2 = len experiments"
    by (auto simp: list_all_iff)
  let ?bs = "map2 (\<and>) (map (\<lambda>x. x \<le> 25) c1) (map (\<lambda>x. x \<ge> float64 7.7) c2)"
  have len: "length ?bs = len experiments" using l by simp
  have g1: "getattr_col experiments ''c1'' = Inr (FloatCol c1)"
    and g2: "getattr_col experiments ''c2'' = Inr (FloatCol c2)"
    by (simp_all add: getattr_col_def m)
  have ma: "mask_and (map (\<lambda>x. x \<le> 25) c1) (map (\<lambda>x. x \<ge> float64 7.7) c2) = Inr ?bs"
    using l by (simp add: mask_and_def)
  have "filter ((!) ?bs) [0..<len experiments]
       = filter (\<lambda>i. c1 ! i \<le> 25 \<and> c2 ! i \<ge> 7.7) [0..<len experiments]"
  proof (rule filter_cong [OF refl])
    fix i assume "i \<in> set [0..<len experiments]"
    then have i: "i < length c1" "i < length c2" using l by simp_all
    then have "c2 ! i \<in> set c2" by simp
    with a have "float64 (c2 ! i) = c2 ! i" by blast
    from float64_threshold [OF this] i show "?bs ! i = (c1 ! i \<le> 25 \<and> c2 ! i \<ge> 7.7)"
      by simp
  qed
  with loc_mask_rows_at [OF assms(1) len]
  have lm: "loc_mask experiments ?bs
       = Inr (rows_at experiments
                (filter (\<lambda>i. c1 ! i \<le> 25 \<and> c2 ! i \<ge> 7.7) [0..<len experiments]))"
    by (simp only:)
  show "hypervolume compute_hypervolume d experiments
              = compute_hypervolume d
                  (rows_at experiments
                     (filter (\<lambda>i. c1 ! i \<le> 25 \<and> c2 ! i \<ge> 7.7) [0..<len experiments]))
                  [(''f1'', 140), (''f2'', 50)]"
    unfolding hypervolume_def
    by (simp only: in1 if_True g1 g2 compare_scalar.simps ma lm sum.case)
qed

theorem hypervolume_selection_witness:
  "hypervolume (\<lambda>d df r. Inr (real (len df))) reaction_domain
     \<lparr>columns = [(''f1'', FloatCol [100, 120]), (''f2'', FloatCol [30, 40]),
                 (''c1'', FloatCol [20, 30]), (''c2'', FloatCol [8, 9])],
      index = [IntL 0, IntL 1]\<rparr> = Inr 1
   \<and> rows_at \<lparr>columns = [(''f1'', FloatCol [100, 120]), (''f2'', FloatCol [30, 40]),
                 (''c1'', FloatCol [20, 30]), (''c2'', FloatCol [8, 9])],
      index = [IntL 0, IntL 1]\<rparr> [0]
       = \<lparr>columns = [(''f1'', FloatCol [100]), (''f2'', FloatCol [30]),
                 (''c1'', FloatCol [20]), (''c2'', FloatCol [8])],
      index = [IntL 0]\<rparr>
   \<and> hypervolume (\<lambda>d df r. Inr (real (len df))) reaction_domain
     \<lparr>columns = [(''f1'', FloatCol [100, 120]), (''f2'', FloatCol [30, 40])],
      index = [IntL 0, IntL 1]\<rparr> = Inr 2"
proof -
  let ?hv = "\<lambda>(d::domain) df (r::(string \<times> real) list). (Inr (real (len df)) :: error + real)"
  let ?E1 = "\<lparr>columns = [(''f1'', FloatCol [100, 120]), (''f2'', FloatCol [30, 40]),
                 (''c1'', FloatCol [20, 30]), (''c2'', FloatCol [8, 9])],
      index = [IntL 0, IntL 1]\<rparr>"
  let ?E2 = "\<lparr>columns = [(''f1'', FloatCol [100, 120]), (''f2'', FloatCol [30, 40])],
      index = [IntL 0, IntL 1]\<rparr>"
  have u: "[0..<2] = [0, 1]" by (simp add: numeral_2_eq_2)
  have w1: "list_all (\<lambda>(k, c). col_len c = len ?E1) (columns ?E1)"
    and w2: "list_all (\<lambda>(k, c). col_len c = len ?E2) (columns ?E2)"
    by (simp_all add: len_def)
  have d1: "distinct (map fst (columns ?E1))" and d2: "distinct (map fst (columns ?E2))"
    by simp_all
  from hypervolume_selection [OF w1 d1, of ?hv reaction_domain, THEN conjunct2, rule_format,
      of "[20, 30]" "[8, 9]"]
  have 1: "hypervolume ?hv reaction_domain ?E1 = Inr 1"
    by (simp add: getitem_def len_def rows_at_def u float64_numeral)
  from hypervolume_selection [OF w2 d2, of ?hv reaction_domain, THEN conjunct1]
  have 2: "hypervolume ?hv reaction_domain ?E2 = Inr 2"
    by (simp add: len_def)
  have 3: "rows_at ?E1 [0] = \<lparr>columns = [(''f1'', FloatCol [100]), (''f2'', FloatCol [30]),
                 (''c1'', FloatCol [20]), (''c2'', FloatCol [8])],
      index = [IntL 0]\<rparr>"
    by (simp add: rows_at_def)
  from 1 2 3 show ?thesis by simp
qed






subsection \<open>Effects and errors\<close>

lemma samples_st_frame:
  assumes "samples_st Tf Vf typef yf n A B T V S s = (r, s')"
  shows "globals s' = globals s \<and> np_random s' = np_random s
       \<and> (\<forall>a. a \<noteq> next_ref s \<longrightarrow> heap s' a = heap s a)
       \<and> (\<forall>a. r = Inr a \<longrightarrow> a = next_ref s \<and> next_ref s' = Suc a
                \<and> (\<exists>df. heap s' a = FrameObj df))"
  using assms
  by (auto simp: samples_st_def new_object_def assign_index_def
      split: sum.splits prod.splits pyobj.splits)

lemma samples_st_refines:
  assumes "samples_st Tf Vf typef yf n A B T V S s = (r, s')"
  shows "map_sum id (heap s') r = map_sum id FrameObj (samples_of (globals s) Tf Vf typef yf n A B T V S)"
  using assms
  by (auto simp: samples_st_def samples_of_def new_object_def assign_index_def
      split: sum.splits prod.splits pyobj.splits)

lemma create_experiments_st_frame:
  assumes "create_experiments_st domain_ref n A B candidates_ref s = (r, s')"
  shows "globals s' = globals s
       \<and> (\<forall>a. a \<noteq> next_ref s \<longrightarrow> heap s' a = heap s a)
       \<and> (heap s candidates_ref \<noteq> NoneObj \<longrightarrow> np_random s' = np_random s)
       \<and> (\<forall>a. r = Inr a \<longrightarrow> a = next_ref s \<and> next_ref s' = Suc a
                \<and> (\<exists>df. heap s' a = FrameObj df))"
proof (cases "heap s domain_ref")
  case (DomainObj d)
  show ?thesis
  proof (cases "heap s candidates_ref")
    case NoneObj
    from assms DomainObj NoneObj show ?thesis
      by (auto simp: create_experiments_st_def split: sum.splits prod.splits
          dest!: samples_st_frame)
  next
    case (DomainObj d')
    with assms \<open>heap s domain_ref = DomainObj d\<close> show ?thesis
      by (auto simp: create_experiments_st_def split: sum.splits)
  next
    case (FrameObj c)
    with assms DomainObj show ?thesis
      by (auto simp: create_experiments_st_def split: sum.splits prod.splits
          dest!: samples_st_frame)
  qed
qed (use assms in \<open>auto simp: create_experiments_st_def\<close>)

lemma create_experiments_st_refines:
  assumes "heap s domain_ref = DomainObj d"
    and "heap s candidates_ref = (case candidates of None \<Rightarrow> NoneObj | Some c \<Rightarrow> FrameObj c)"
    and "create_experiments_st domain_ref n A B candidates_ref s = (r, s')"
  shows "map_sum id (heap s') r
           = map_sum id FrameObj (fst (create_experiments (globals s) d n A B candidates (np_random s)))
       \<and> np_random s' = snd (create_experiments (globals s) d n A B candidates (np_random s))"
proof (cases candidates)
  case None
  with assms show ?thesis
    by (auto simp: create_experiments_st_def create_experiments_def
        split: sum.splits prod.splits dest: samples_st_refines samples_st_frame)
next
  case (Some c)
  with assms show ?thesis
    by (auto simp: create_experiments_st_def create_experiments_def
        split: sum.splits prod.splits dest: samples_st_refines samples_st_frame)
qed

lemma samples_dict_example:
  "samples_dict module_init temperature_feature solvent_amount_feature solvent_type_feature
     yield_feature 1 25 90 (FloatCol [0]) (FloatCol [20]) (StrCol [''MeOH''])
   = Inr [(''Temperature'', FloatCol [0]), (''Solvent Volume'', FloatCol [20]),
          (''Yield'', FloatCol [1776743940179047 / 140737488355328]),
          (''Solvent Type'', StrCol [''MeOH'']),
          (''valid_Yield'', FloatCol [1])]"
  by (subst samples_dict_init)
     (simp_all add: temperature_feature_def solvent_amount_feature_def solvent_type_feature_def
        yield_feature_def yield_sum_example)

lemma evaluate_experiments_st_example:
  "evaluate_experiments_st 0 1
     \<lparr>globals = module_init, np_random = \<lparr>tape = (\<lambda>k. 0), pos = 0\<rparr>,
      heap = (\<lambda>a. NoneObj)
        (0 := DomainObj reaction_domain,
         1 := FrameObj \<lparr>columns = [(''Temperature'', FloatCol [0]),
                                   (''Solvent Volume'', FloatCol [20]),
                                   (''Solvent Type'', StrCol [''MeOH''])],
                        index = [IntL 7]\<rparr>),
      next_ref = 2\<rparr>
   = (Inr 2,
      \<lparr>globals = module_init, np_random = \<lparr>tape = (\<lambda>k. 0), pos = 0\<rparr>,
       heap = (\<lambda>a. NoneObj)
        (0 := DomainObj reaction_domain,
         1 := FrameObj \<lparr>columns = [(''Temperature'', FloatCol [0]),
                                   (''Solvent Volume'', FloatCol [20]),
                                   (''Solvent Type'', StrCol [''MeOH''])],
                        index = [IntL 7]\<rparr>,
         2 := FrameObj \<lparr>columns = [(''Temperature'', FloatCol [0]),
                                   (''Solvent Volume'', FloatCol [20]),
                                   (''Yield'', FloatCol [1776743940179047 / 140737488355328]),
                                   (''Solvent Type'', StrCol [''MeOH'']),
                                   (''valid_Yield'', FloatCol [1])],
                        index = [IntL 0]\<rparr>),
       next_ref = 3\<rparr>)"
  by (simp add: evaluate_experiments_st_def create_experiments_st_def reaction_lookups
      candidate_inputs_def getitem_def len_def samples_st_def samples_dict_example
      DataFrame_def new_object_def assign_index_def set_index_def RangeIndex_def
      fun_upd_twist)









text \<open>
  C6. The simulator has no state. Over the object store, a call of
  \<open>evaluate_experiments\<close> leaves the module-level data, the domain object, the
  candidates object and every other object that existed before the call unchanged, and,
  given candidates, numpy's generator too. What it returns is a reference to a new
  table: the first unused reference, the only place of the store the call writes.
\<close>

theorem evaluate_experiments_frame:
  assumes "evaluate_experiments_st domain_ref candidates_ref s = (r, s')"
    and "domain_ref < next_ref s" and "candidates_ref < next_ref s"
  shows "globals s' = globals s
       \<and> heap s' domain_ref = heap s domain_ref
       \<and> heap s' candidates_ref = heap s candidates_ref
       \<and> (\<forall>a. a < next_ref s \<longrightarrow> heap s' a = heap s a)
       \<and> (heap s candidates_ref \<noteq> NoneObj \<longrightarrow> np_random s' = np_random s)
       \<and> (\<forall>a. r = Inr a \<longrightarrow> a = next_ref s \<and> next_ref s' = Suc a
                \<and> (\<exists>df. heap s' a = FrameObj df))"
  using create_experiments_st_frame [OF assms(1) [unfolded evaluate_experiments_st_def]] assms(2,3)
  by auto

theorem evaluate_experiments_frame_witness:
  "(let s = \<lparr>globals = module_init, np_random = \<lparr>tape = (\<lambda>k. 0), pos = 0\<rparr>,
             heap = (\<lambda>a. NoneObj)
               (0 := DomainObj reaction_domain,
                1 := FrameObj \<lparr>columns = [(''Temperature'', FloatCol [0]),
                                          (''Solvent Volume'', FloatCol [20]),
                                          (''Solvent Type'', StrCol [''MeOH''])],
                               index = [IntL 7]\<rparr>),
             next_ref = 2\<rparr>;
        (r, s') = evaluate_experiments_st 0 1 s
    in r = Inr 2 \<and> 0 < next_ref s \<and> 1 < next_ref s
     \<and> globals s' = globals s \<and> heap s' 0 = heap s 0 \<and> heap s' 1 = heap s 1
     \<and> np_random s' = np_random s \<and> next_ref s' = 3
     \<and> heap s' 2 = FrameObj \<lparr>columns = [(''Temperature'', FloatCol [0]),
                                   (''Solvent Volume'', FloatCol [20]),
                                   (''Yield'', FloatCol [1776743940179047 / 140737488355328]),
                                   (''Solvent Type'', StrCol [''MeOH'']),
                                   (''valid_Yield'', FloatCol [1])],
                        index = [IntL 0]\<rparr>)"
  using evaluate_experiments_frame [OF evaluate_experiments_st_example]
  unfolding Let_def evaluate_experiments_st_example prod.case
  by simp



end
